theory Spec2Isabelle
  imports Complex_Main
begin

section \<open>JavaScript numbers\<close>

text \<open>
  The map controller (\<^verbatim>\<open>resources/loader/map.js\<close>) computes with JavaScript numbers.
  Configuration values and marker coordinates arrive as JSON, so they are finite; they are
  modelled as \<^typ>\<open>real\<close>. Arithmetic never throws in JavaScript: dividing by zero gives
  an infinity or NaN, and a finite result too large for a double overflows to an
  infinity; both then propagate through \<^verbatim>\<open>*\<close>, \<^verbatim>\<open>/\<close>, \<^verbatim>\<open>+\<close> and \<^verbatim>\<open>-\<close>. Results of
  the arithmetic are therefore values of \<open>jsnum\<close>, the reals extended with the three
  IEEE special values. A finite result overflows when its magnitude reaches
  \<open>2 ^ 1024 - 2 ^ 970\<close>, the least magnitude that rounds to an infinity; below it the
  result is kept as the exact real: rounding, and underflow with it, is set aside.
  The model has a single zero (the positive one).
\<close>

datatype jsnum = Num real | PInf | NInf | NaN

definition signedInf :: "real \<Rightarrow> jsnum" where
  "signedInf s = (if 0 < s then PInf else if s < 0 then NInf else NaN)"

definition overflowThreshold :: real where
  "overflowThreshold = 2 ^ 1024 - 2 ^ 970"

text \<open>The value of a finite operation whose exact result is \<open>r\<close>.\<close>

definition fl :: "real \<Rightarrow> jsnum" where
  "fl r = (if overflowThreshold \<le> \<bar>r\<bar> then signedInf r else Num r)"

fun isFinite :: "jsnum \<Rightarrow> bool" where
  "isFinite (Num r) = True"
| "isFinite PInf = False"
| "isFinite NInf = False"
| "isFinite NaN = False"

fun js_mul :: "jsnum \<Rightarrow> jsnum \<Rightarrow> jsnum" where
  "js_mul (Num a) (Num b) = fl (a * b)"
| "js_mul (Num a) PInf = signedInf a"
| "js_mul (Num a) NInf = signedInf (- a)"
| "js_mul PInf (Num b) = signedInf b"
| "js_mul NInf (Num b) = signedInf (- b)"
| "js_mul PInf PInf = PInf"
| "js_mul PInf NInf = NInf"
| "js_mul NInf PInf = NInf"
| "js_mul NInf NInf = PInf"
| "js_mul _ _ = NaN"

fun js_div :: "jsnum \<Rightarrow> jsnum \<Rightarrow> jsnum" where
  "js_div (Num a) (Num b) = (if b = 0 then signedInf a else fl (a / b))"
| "js_div (Num a) PInf = Num 0"
| "js_div (Num a) NInf = Num 0"
| "js_div PInf (Num b) = (if 0 \<le> b then PInf else NInf)"
| "js_div NInf (Num b) = (if 0 \<le> b then NInf else PInf)"
| "js_div _ _ = NaN"

fun js_sub :: "jsnum \<Rightarrow> jsnum \<Rightarrow> jsnum" where
  "js_sub (Num a) (Num b) = fl (a - b)"
| "js_sub (Num a) PInf = NInf"
| "js_sub (Num a) NInf = PInf"
| "js_sub PInf (Num b) = PInf"
| "js_sub NInf (Num b) = NInf"
| "js_sub PInf NInf = PInf"
| "js_sub NInf PInf = NInf"
| "js_sub _ _ = NaN"

fun js_add :: "jsnum \<Rightarrow> jsnum \<Rightarrow> jsnum" where
  "js_add (Num a) (Num b) = fl (a + b)"
| "js_add (Num a) PInf = PInf"
| "js_add (Num a) NInf = NInf"
| "js_add PInf (Num b) = PInf"
| "js_add NInf (Num b) = NInf"
| "js_add PInf PInf = PInf"
| "js_add NInf NInf = NInf"
| "js_add _ _ = NaN"

text \<open>\<^verbatim>\<open>a <= b\<close>; every comparison with NaN is false.\<close>

fun js_le :: "jsnum \<Rightarrow> jsnum \<Rightarrow> bool" where
  "js_le NaN _ = False"
| "js_le _ NaN = False"
| "js_le (Num a) (Num b) = (a \<le> b)"
| "js_le NInf _ = True"
| "js_le _ PInf = True"
| "js_le _ _ = False"

definition js_ge :: "jsnum \<Rightarrow> jsnum \<Rightarrow> bool" where
  "js_ge a b = js_le b a"


section \<open>Configuration and map state\<close>

text \<open>
  A JavaScript two-element array \<^verbatim>\<open>[a, b]\<close> of numbers is a pair: \<^verbatim>\<open>p[0]\<close> is \<open>fst p\<close>
  and \<^verbatim>\<open>p[1]\<close> is \<open>snd p\<close>. A box \<^verbatim>\<open>[[a, b], [c, d]]\<close> is a pair of points.
\<close>

type_synonym point = "real \<times> real"
type_synonym box = "point \<times> point"
type_synonym rpoint = "jsnum \<times> jsnum"
type_synonym rbox = "rpoint \<times> rpoint"

text \<open>\<^verbatim>\<open>const CRSOrigin = { TopLeft: 1, BottomLeft: 2 }\<close>\<close>

datatype CRSOrigin = TopLeft | BottomLeft

text \<open>
  The only exception the modelled code can raise is the TypeError of reading a property
  of \<^verbatim>\<open>undefined\<close> or \<^verbatim>\<open>null\<close>. A function that mutates the map returns the state it
  leaves behind in both cases: an exception does not undo earlier assignments.
\<close>

datatype error = TypeError

datatype 'a result = Ok 'a | Throw error 'a

fun state_of :: "'a result \<Rightarrow> 'a" where
  "state_of (Ok s) = s"
| "state_of (Throw e s) = s"

fun isOk :: "'a result \<Rightarrow> bool" where
  "isOk (Ok s) = True"
| "isOk (Throw e s) = False"

text \<open>
  Render layers (Leaflet image overlays, polylines, rectangles) and icons are opaque
  handles; two distinct Leaflet objects have distinct handles.
\<close>

type_synonym layer = nat
type_synonym icon = nat

text \<open>
  A background as \<^verbatim>\<open>buildLeafletMap\<close> leaves it: \<^verbatim>\<open>at\<close> defaulted to the coordinate space
  and \<^verbatim>\<open>layers\<close> filled with the image overlay and the overlay objects.
\<close>

record background =
  bg_name :: string
  bg_at :: box
  bg_layers :: "layer list"

text \<open>
  The fields \<^verbatim>\<open>instantiateMarkers\<close> reads of a group; an absent field (\<^verbatim>\<open>undefined\<close>) is
  \<open>None\<close>, and an absent \<^verbatim>\<open>canDismiss\<close> is false.
\<close>

record markerGroup =
  markerIcon :: "string option"
  canDismiss :: bool
  group_size :: "real option"
  extraMinZoomSize :: "real option"
  fillColor :: "string option"
  strokeColor :: "string option"
  strokeWidth :: "real option"

text \<open>
  The configuration. \<^verbatim>\<open>groups\<close> holds the configured groups, the own properties of the
  object \<^verbatim>\<open>config.groups\<close>.
\<close>

record config =
  crs :: box
  backgrounds :: "background list"
  groups :: "string \<rightharpoonup> markerGroup"
  layerIds :: "string list"

text \<open>
  \<^verbatim>\<open>this.config.groups[groupName]\<close>. \<^verbatim>\<open>config.groups\<close> is a plain object, so a name that
  is not configured still finds the members every object inherits from
  \<^verbatim>\<open>Object.prototype\<close>. Such a member is not \<^verbatim>\<open>undefined\<close>, and it has none of the group
  fields. Every other name looks up \<^verbatim>\<open>undefined\<close>.
\<close>

definition objectPrototypeMembers :: "string list" where
  "objectPrototypeMembers =
     [''constructor'', ''__defineGetter__'', ''__defineSetter__'', ''hasOwnProperty'',
      ''__lookupGetter__'', ''__lookupSetter__'', ''isPrototypeOf'', ''propertyIsEnumerable'',
      ''toString'', ''valueOf'', ''__proto__'', ''toLocaleString'']"

definition inheritedMember :: markerGroup where
  "inheritedMember =
     \<lparr> markerIcon = None, canDismiss = False, group_size = None, extraMinZoomSize = None,
       fillColor = None, strokeColor = None, strokeWidth = None \<rparr>"

definition lookupGroup :: "config \<Rightarrow> string \<Rightarrow> markerGroup option" where
  "lookupGroup cfg name =
     (case groups cfg name of
        Some g \<Rightarrow> Some g
      | None \<Rightarrow> if name \<in> set objectPrototypeMembers then Some inheritedMember else None)"

text \<open>
  The argument of \<^verbatim>\<open>setCurrentBackground\<close>, which is also what \<^verbatim>\<open>backgroundIndex\<close> and the
  storage hold. \<open>Index i\<close> is the integer \<open>i\<close>, as a number or as its decimal string (the
  values of the switch's options are such strings). \<open>NonNumeric\<close> is a value whose
  numeric value is NaN and that names no property of the array of backgrounds:
  \<^verbatim>\<open>undefined\<close>, \<^verbatim>\<open>NaN\<close>, or a string such as \<^verbatim>\<open>'abc'\<close>. Other values (numbers that are not
  integers, other spellings of a number) are not modelled.
\<close>

datatype jsindex = Index int | NonNumeric

text \<open>
  A marker's identifier is compared with \<^verbatim>\<open>===\<close> against the \<^verbatim>\<open>marker\<close> URL parameter,
  which is a string: a numeric \<^verbatim>\<open>uid\<close> never equals it.
\<close>

datatype jskey = KStr string | KNum real

text \<open>
  A placement \<^verbatim>\<open>[lat, lon, slots?]\<close> of the marker payload. \<open>uid = None\<close> stands for a
  \<^verbatim>\<open>uid\<close> that is absent or \<^verbatim>\<open>null\<close>.
\<close>

record slots =
  uid :: "jskey option"
  slot_label :: "string option"

record markerInstance =
  inst_lat :: real
  inst_lon :: real
  inst_slots :: "slots option"

text \<open>
  Modelled from the spec: \<^verbatim>\<open>storage.js\<close> is not part of the sources. The storage driver is
  ``a durable key/value interface (\<^verbatim>\<open>get(key)\<close>, \<^verbatim>\<open>set(key, value)\<close>) scoped per map
  instance''. Its entries are a map from keys to stored values; the only key the map
  controller uses is \<^verbatim>\<open>background\<close>, whose value is the stored choice of a background.
  A stored value is a string (the decimal string of an index, or some other text); a
  key that is not stored reads \<^verbatim>\<open>null\<close>. The functions \<^verbatim>\<open>getMarkerKey\<close> and
  \<^verbatim>\<open>isDismissed\<close> are parameters.
\<close>

record mapStorage =
  entries :: "string \<rightharpoonup> jsindex"
  getMarkerKey :: "string \<Rightarrow> markerInstance \<Rightarrow> jskey"
  isDismissed :: "string \<Rightarrow> markerInstance \<Rightarrow> bool"

definition storage_get :: "mapStorage \<Rightarrow> string \<Rightarrow> jsindex option" where
  "storage_get st k = entries st k"

definition storage_set :: "mapStorage \<Rightarrow> string \<Rightarrow> jsindex \<Rightarrow> mapStorage" where
  "storage_set st k v = st\<lparr>entries := (entries st)(k \<mapsto> v)\<rparr>"

text \<open>The Leaflet markers \<^verbatim>\<open>instantiateMarkers\<close> constructs, with their options.\<close>

datatype leafletMarker =
    IconMarker rpoint "icon option" bool
  | CircleMarker rpoint jsnum "real option" "string option" "string option" real

text \<open>
  Modelled from the spec: \<^verbatim>\<open>layerManager.js\<close> is not part of the sources.
  \<^verbatim>\<open>register(layerId)\<close> is ``idempotent; creates an empty membership set if unseen'';
  \<^verbatim>\<open>addMember(layerCombinationKey, markerHandle)\<close> ``associates a rendered marker with
  every layer identifier in the combination key''. The manager keeps the registered
  names and the members in the order they were added.
\<close>

record markerLayerManager =
  lm_layers :: "string list"
  lm_members :: "(string \<times> leafletMarker) list"

definition lm_register :: "markerLayerManager \<Rightarrow> string \<Rightarrow> markerLayerManager" where
  "lm_register lm name =
     (if name \<in> set (lm_layers lm) then lm else lm\<lparr>lm_layers := lm_layers lm @ [name]\<rparr>)"

definition lm_addMember :: "markerLayerManager \<Rightarrow> string \<Rightarrow> leafletMarker \<Rightarrow> markerLayerManager" where
  "lm_addMember lm markerType marker = lm\<lparr>lm_members := lm_members lm @ [(markerType, marker)]\<rparr>"

text \<open>
  Modelled from the spec: Leaflet is an external collaborator (``add/remove-layer,
  pan/zoom/fit-bounds''). The map keeps the layers shown, back-most first, the two
  marker scale options and the view requests it received.
\<close>

datatype viewCall = SetZoom jsnum | FitBounds rbox | SetView rpoint

record leafletMap =
  lf_layers :: "layer list"
  minZoom :: jsnum
  maxZoom :: jsnum
  markerScaleI :: jsnum
  markerScaleA :: jsnum
  viewCalls :: "viewCall list"

definition lf_remove :: "layer \<Rightarrow> leafletMap \<Rightarrow> leafletMap" where
  "lf_remove x lf = lf\<lparr>lf_layers := removeAll x (lf_layers lf)\<rparr>"

definition lf_addTo :: "layer \<Rightarrow> leafletMap \<Rightarrow> leafletMap" where
  "lf_addTo x lf = (if x \<in> set (lf_layers lf) then lf else lf\<lparr>lf_layers := lf_layers lf @ [x]\<rparr>)"

definition lf_bringToBack :: "layer \<Rightarrow> leafletMap \<Rightarrow> leafletMap" where
  "lf_bringToBack x lf =
     (if x \<in> set (lf_layers lf) then lf\<lparr>lf_layers := x # removeAll x (lf_layers lf)\<rparr> else lf)"

text \<open>The callbacks a caller hands to \<^verbatim>\<open>streamMarkersIn\<close>; the model logs their calls.\<close>

datatype callback = SuccessCallback | ErrorCallback

text \<open>
  The fields of a \<^verbatim>\<open>DataMap\<close> object the modelled methods read or write, followed by
  what the methods do to the world outside it: the popups opened, the callbacks called,
  the coordinates shown by the coordinate tracker, and the marker payloads whose
  \<^verbatim>\<open>waitForLeaflet\<close> timer is still polling.
\<close>

record datamap =
  config :: config
  storage :: mapStorage
  layerManager :: markerLayerManager
  background :: "background option"
  backgroundIndex :: jsindex
  leaflet :: "leafletMap option"
  leafletIcons :: "string \<rightharpoonup> icon"
  markerIdToAutoOpen :: "string option"
  crsOrigin :: CRSOrigin
  crsScaleY :: jsnum
  crsScaleX :: jsnum
  openedPopups :: "leafletMarker list"
  callbackLog :: "callback list"
  coordTrackerText :: "rpoint option"
  waiting :: "(string \<times> markerInstance list) list list"

text \<open>
  The constructor \<^verbatim>\<open>DataMap( id, $root, config )\<close>. Its inputs from the environment are
  the storage driver and the \<^verbatim>\<open>marker\<close> parameter of the query string. It has no
  \<^verbatim>\<open>throw\<close>: the orientation is a two-way conditional, and the scale factors are
  \<^verbatim>\<open>100 / Math.max( ... )\<close> on the first components (Y) and on the second components (X).
\<close>

definition DataMap :: "config \<Rightarrow> mapStorage \<Rightarrow> string option \<Rightarrow> datamap" where
  "DataMap cfg st urlMarker =
     \<lparr> config = cfg,
       storage = st,
       layerManager = \<lparr> lm_layers = [], lm_members = [] \<rparr>,
       background = None,
       backgroundIndex = Index 0,
       leaflet = None,
       leafletIcons = Map.empty,
       markerIdToAutoOpen = urlMarker,
       crsOrigin = (if fst (fst (crs cfg)) < fst (snd (crs cfg)) \<and> snd (fst (crs cfg)) < snd (snd (crs cfg))
                    then TopLeft else BottomLeft),
       crsScaleY = js_div (Num 100) (Num (max (fst (fst (crs cfg))) (fst (snd (crs cfg))))),
       crsScaleX = js_div (Num 100) (Num (max (snd (fst (crs cfg))) (snd (snd (crs cfg))))),
       openedPopups = [],
       callbackLog = [],
       coordTrackerText = None,
       waiting = [] \<rparr>"


section \<open>Coordinate transform\<close>

definition translatePoint :: "datamap \<Rightarrow> point \<Rightarrow> rpoint" where
  "translatePoint m point =
     (if crsOrigin m = TopLeft
      then (js_mul (js_sub (Num (fst (snd (crs (config m))))) (Num (fst point))) (crsScaleY m),
            js_mul (Num (snd point)) (crsScaleX m))
      else (js_mul (Num (fst point)) (crsScaleY m),
            js_mul (Num (snd point)) (crsScaleX m)))"

text \<open>
  \<^verbatim>\<open>translateBox\<close> as written: in the bottom-left branch the last component is
  \<^verbatim>\<open>box[1][0] * this.crsScaleX\<close>.
\<close>

definition translateBox :: "datamap \<Rightarrow> box \<Rightarrow> rbox" where
  "translateBox m box =
     (if crsOrigin m = TopLeft
      then ((js_mul (js_sub (Num (fst (snd (crs (config m))))) (Num (fst (fst box)))) (crsScaleY m),
             js_mul (Num (snd (fst box))) (crsScaleX m)),
            (js_mul (js_sub (Num (fst (snd (crs (config m))))) (Num (fst (snd box)))) (crsScaleY m),
             js_mul (Num (snd (snd box))) (crsScaleX m)))
      else ((js_mul (Num (fst (fst box))) (crsScaleY m),
             js_mul (Num (snd (fst box))) (crsScaleX m)),
            (js_mul (Num (fst (snd box))) (crsScaleY m),
             js_mul (Num (fst (snd box))) (crsScaleX m))))"

text \<open>
  The conversion inside the \<^verbatim>\<open>mousemove\<close> handler of the coordinate-under-cursor
  display: \<^verbatim>\<open>lat /= crsScaleY; lon /= crsScaleX; if top-left, lat = crs[1][0] - lat\<close>.
\<close>

definition renderToNative :: "datamap \<Rightarrow> rpoint \<Rightarrow> rpoint" where
  "renderToNative m latlng =
     (let lat = js_div (fst latlng) (crsScaleY m);
          lon = js_div (snd latlng) (crsScaleX m);
          lat = (if crsOrigin m = TopLeft then js_sub (Num (fst (snd (crs (config m))))) lat else lat)
      in (lat, lon))"

text \<open>
  The handler converts and shows the coordinates only for a cursor within
  \<^verbatim>\<open>-5 .. 105\<close> on both render axes; otherwise the display keeps its text.
\<close>

definition onMouseMove :: "datamap \<Rightarrow> rpoint \<Rightarrow> datamap" where
  "onMouseMove m latlng =
     (if js_ge (fst latlng) (Num (- 5)) \<and> js_le (fst latlng) (Num 105)
         \<and> js_ge (snd latlng) (Num (- 5)) \<and> js_le (snd latlng) (Num 105)
      then m\<lparr>coordTrackerText := Some (renderToNative m latlng)\<rparr>
      else m)"


section \<open>Marker ingestion\<close>

text \<open>
  \<^verbatim>\<open>String.prototype.split\<close> with a one-character separator: the result always has at
  least one element, and two adjacent separators give an empty element.
\<close>

fun js_split :: "char \<Rightarrow> string \<Rightarrow> string list" where
  "js_split sep [] = [[]]"
| "js_split sep (c # cs) =
     (if c = sep then [] # js_split sep cs
      else (case js_split sep cs of
              [] \<Rightarrow> [[c]]
            | w # ws \<Rightarrow> (c # w) # ws))"

text \<open>
  The marker payload is an object from marker types (layer-combination keys) to arrays
  of placements. \<^verbatim>\<open>for ( const markerType in data )\<close> visits its keys once each; the
  payload is the list of its entries in the order of that enumeration.
\<close>

type_synonym markerData = "(string \<times> markerInstance list) list"

text \<open>
  \<^verbatim>\<open>( instance[2] && instance[2].uid != null ) ? instance[2].uid
    : this.storage.getMarkerKey( type, instance )\<close>
\<close>

definition markerKey :: "datamap \<Rightarrow> string \<Rightarrow> markerInstance \<Rightarrow> jskey" where
  "markerKey m type inst =
     (case inst_slots inst of
        None \<Rightarrow> getMarkerKey (storage m) type inst
      | Some sl \<Rightarrow>
          (case uid sl of
             None \<Rightarrow> getMarkerKey (storage m) type inst
           | Some u \<Rightarrow> u))"

text \<open>\<^verbatim>\<open>onMarkerReady\<close>; the call \<^verbatim>\<open>marker.openPopup()\<close> is recorded in \<open>openedPopups\<close>.\<close>

definition onMarkerReady ::
  "datamap \<Rightarrow> string \<Rightarrow> markerGroup \<Rightarrow> markerInstance \<Rightarrow> leafletMarker \<Rightarrow> datamap" where
  "onMarkerReady m type grp inst marker =
     (case markerIdToAutoOpen m of
        None \<Rightarrow> m
      | Some wanted \<Rightarrow>
          (if markerKey m type inst = KStr wanted
           then m\<lparr>openedPopups := openedPopups m @ [marker]\<rparr>
           else m))"

text \<open>
  The marker construction inside the \<^verbatim>\<open>placements.forEach\<close> of \<^verbatim>\<open>instantiateMarkers\<close>.
  A string is truthy when it is present and not empty, a number when it is present and
  not zero; \<^verbatim>\<open>undefined / 2\<close> is NaN. The circle marker's constant \<^verbatim>\<open>fillOpacity: 0.7\<close>
  is left out.
\<close>

definition constructMarker ::
  "datamap \<Rightarrow> string \<Rightarrow> string \<Rightarrow> markerGroup \<Rightarrow> markerInstance \<Rightarrow> leafletMarker" where
  "constructMarker m markerType groupName grp inst =
     (let position = translatePoint m (inst_lat inst, inst_lon inst) in
      if markerIcon grp \<noteq> None \<and> markerIcon grp \<noteq> Some []
      then IconMarker position (leafletIcons m groupName)
             (if canDismiss grp then isDismissed (storage m) markerType inst else False)
      else CircleMarker position
             (case group_size grp of
                None \<Rightarrow> NaN
              | Some s \<Rightarrow> js_div (Num s) (Num 2))
             (extraMinZoomSize grp) (fillColor grp)
             (case strokeColor grp of
                None \<Rightarrow> fillColor grp
              | Some c \<Rightarrow> if c = [] then fillColor grp else Some c)
             (case strokeWidth grp of
                None \<Rightarrow> 1
              | Some w \<Rightarrow> if w = 0 then 1 else w))"

text \<open>
  The body of \<^verbatim>\<open>placements.forEach\<close>. \<open>groupOpt = None\<close> is a \<^verbatim>\<open>group\<close> that is
  \<^verbatim>\<open>undefined\<close>: \<^verbatim>\<open>group.markerIcon\<close> throws before the marker is built. The popup
  closures bound to the marker run later and are not part of ingestion.
\<close>

definition placeInstance ::
  "string \<Rightarrow> string \<Rightarrow> markerGroup option \<Rightarrow> datamap \<Rightarrow> markerInstance \<Rightarrow> datamap result" where
  "placeInstance markerType groupName groupOpt m inst =
     (case groupOpt of
        None \<Rightarrow> Throw TypeError m
      | Some grp \<Rightarrow>
          (let leafletMarker = constructMarker m markerType groupName grp inst;
               m1 = m\<lparr>layerManager := lm_addMember (layerManager m) markerType leafletMarker\<rparr>
           in Ok (onMarkerReady m1 markerType grp inst leafletMarker)))"

text \<open>A loop whose body can throw: the exception ends it and keeps the state reached.\<close>

fun forEachR :: "('s \<Rightarrow> 'a \<Rightarrow> 's result) \<Rightarrow> 'a list \<Rightarrow> 's \<Rightarrow> 's result" where
  "forEachR f [] s = Ok s"
| "forEachR f (x # xs) s =
     (case f s x of
        Ok s' \<Rightarrow> forEachR f xs s'
      | Throw e s' \<Rightarrow> Throw e s')"

definition groupNameOf :: "string \<Rightarrow> string" where
  "groupNameOf markerType = (case js_split (CHR '' '') markerType of [] \<Rightarrow> [] | g # _ \<Rightarrow> g)"

definition registerLayers :: "datamap \<Rightarrow> string \<Rightarrow> datamap" where
  "registerLayers m markerType =
     m\<lparr>layerManager := foldl lm_register (layerManager m) (js_split (CHR '' '') markerType)\<rparr>"

definition unpackMarkers :: "datamap \<Rightarrow> string \<times> markerInstance list \<Rightarrow> datamap result" where
  "unpackMarkers m entry =
     (let markerType = fst entry;
          groupName = groupNameOf markerType;
          grp = lookupGroup (config m) groupName;
          placements = snd entry
      in forEachR (placeInstance markerType groupName grp) placements m)"

definition instantiateMarkers :: "datamap \<Rightarrow> markerData \<Rightarrow> datamap result" where
  "instantiateMarkers m data =
     forEachR unpackMarkers data (foldl registerLayers m (map fst data))"

text \<open>
  \<^verbatim>\<open>streamMarkersIn\<close> after the request has settled. The promise is rejected, or it is
  fulfilled with an object that has an \<^verbatim>\<open>error\<close> field, or with the marker payload.
  \<^verbatim>\<open>waitForLeaflet\<close> runs its callback at once when the Leaflet map exists and otherwise
  re-arms a 25 ms timer: the payload then waits in \<open>waiting\<close> until \<open>onPollTimer\<close>.
\<close>

datatype apiResponse = Rejected | ApiError | Markers markerData

definition ingest :: "datamap \<Rightarrow> markerData \<Rightarrow> datamap result" where
  "ingest m data =
     (case instantiateMarkers m data of
        Ok m' \<Rightarrow> Ok (m'\<lparr>callbackLog := callbackLog m' @ [SuccessCallback]\<rparr>)
      | Throw e m' \<Rightarrow> Throw e m')"

definition waitForLeaflet :: "datamap \<Rightarrow> markerData \<Rightarrow> datamap result" where
  "waitForLeaflet m data =
     (if leaflet m = None then Ok (m\<lparr>waiting := waiting m @ [data]\<rparr>) else ingest m data)"

definition onPollTimer :: "datamap \<Rightarrow> datamap result" where
  "onPollTimer m =
     (case waiting m of
        [] \<Rightarrow> Ok m
      | data # rest \<Rightarrow> if leaflet m = None then Ok m else ingest (m\<lparr>waiting := rest\<rparr>) data)"

definition streamMarkersIn :: "datamap \<Rightarrow> apiResponse \<Rightarrow> datamap result" where
  "streamMarkersIn m response =
     (case response of
        Rejected \<Rightarrow> Ok (m\<lparr>callbackLog := callbackLog m @ [ErrorCallback]\<rparr>)
      | ApiError \<Rightarrow> Ok (m\<lparr>callbackLog := callbackLog m @ [ErrorCallback]\<rparr>)
      | Markers data \<Rightarrow> waitForLeaflet m data)"


section \<open>Background selection and view\<close>

text \<open>\<^verbatim>\<open>this.background.layers.forEach( x => x.remove() )\<close>\<close>

definition removeLayers :: "layer list \<Rightarrow> leafletMap option \<Rightarrow> leafletMap option" where
  "removeLayers xs lfo = map_option (\<lambda>lf. foldl (\<lambda>lf x. lf_remove x lf) lf xs) lfo"

text \<open>
  \<^verbatim>\<open>this.background.layers.forEach( x => { x.addTo( this.leaflet ); x.bringToBack(); } )\<close>;
  \<^verbatim>\<open>addTo\<close> throws when there is no Leaflet map yet.
\<close>

definition pushLayer :: "datamap \<Rightarrow> layer \<Rightarrow> datamap result" where
  "pushLayer m x =
     (case leaflet m of
        None \<Rightarrow> Throw TypeError m
      | Some lf \<Rightarrow> Ok (m\<lparr>leaflet := Some (lf_bringToBack x (lf_addTo x lf))\<rparr>))"

text \<open>
  \<^verbatim>\<open>index < 0 || index >= this.config.backgrounds.length\<close>; both comparisons are false
  for an argument whose numeric value is NaN.
\<close>

definition outOfRange :: "jsindex \<Rightarrow> nat \<Rightarrow> bool" where
  "outOfRange index n =
     (case index of
        Index i \<Rightarrow> i < 0 \<or> i \<ge> int n
      | NonNumeric \<Rightarrow> False)"

text \<open>\<^verbatim>\<open>this.config.backgrounds[ index ]\<close>: the element, or \<^verbatim>\<open>undefined\<close>.\<close>

definition backgroundAt :: "background list \<Rightarrow> jsindex \<Rightarrow> background option" where
  "backgroundAt bgs index =
     (case index of
        Index i \<Rightarrow> if 0 \<le> i \<and> nat i < length bgs then Some (bgs ! nat i) else None
      | NonNumeric \<Rightarrow> None)"

text \<open>
  \<^verbatim>\<open>setCurrentBackground\<close>. The two assignments happen whatever the index is; when
  \<^verbatim>\<open>this.background\<close> is then \<^verbatim>\<open>undefined\<close> (no background configured, or an argument
  that is not clamped and names no background), \<^verbatim>\<open>this.background.layers\<close> throws.
\<close>

definition setCurrentBackground :: "datamap \<Rightarrow> jsindex \<Rightarrow> datamap result" where
  "setCurrentBackground m index0 =
     (let m1 = (case background m of
                  None \<Rightarrow> m
                | Some bg \<Rightarrow> m\<lparr>leaflet := removeLayers (bg_layers bg) (leaflet m), background := None\<rparr>);
          index = (if outOfRange index0 (length (backgrounds (config m1))) then Index 0 else index0);
          m2 = m1\<lparr>background := backgroundAt (backgrounds (config m1)) index,
                  backgroundIndex := index\<rparr>
      in case background m2 of
           None \<Rightarrow> Throw TypeError m2
         | Some bg \<Rightarrow> forEachR pushLayer (bg_layers bg) m2)"

text \<open>
  \<^verbatim>\<open>this.setCurrentBackground( this.storage.get( 'background' ) || 0 )\<close> of
  \<^verbatim>\<open>buildLeafletMap\<close>: the last chosen background, or the first one when nothing is
  stored. A stored string is passed on as it is (the string of index 0 and the number
  0 select the same background).
\<close>

definition restoreLastBackground :: "datamap \<Rightarrow> datamap result" where
  "restoreLastBackground m =
     setCurrentBackground m
       (case storage_get (storage m) ''background'' of None \<Rightarrow> Index 0 | Some v \<Rightarrow> v)"

text \<open>
  The \<^verbatim>\<open>change\<close> handler of the background switch; \<open>val\<close> is the value of the selected
  option. The choice is stored after \<^verbatim>\<open>setCurrentBackground\<close> has returned.
\<close>

definition onBackgroundSwitchChange :: "datamap \<Rightarrow> jsindex \<Rightarrow> datamap result" where
  "onBackgroundSwitchChange m val =
     (case setCurrentBackground m val of
        Ok m' \<Rightarrow> Ok (m'\<lparr>storage := storage_set (storage m') ''background'' val\<rparr>)
      | Throw e m' \<Rightarrow> Throw e m')"

text \<open>\<^verbatim>\<open>updateMarkerScaling\<close>; \<open>zoom\<close> is what \<^verbatim>\<open>this.leaflet.getZoom()\<close> returns.\<close>

definition updateMarkerScaling :: "datamap \<Rightarrow> jsnum \<Rightarrow> datamap result" where
  "updateMarkerScaling m zoom =
     (case leaflet m of
        None \<Rightarrow> Throw TypeError m
      | Some lf \<Rightarrow>
          Ok (m\<lparr>leaflet := Some (lf\<lparr>markerScaleI := js_div zoom (minZoom lf),
                                     markerScaleA := js_div zoom (maxZoom lf)\<rparr>)\<rparr>))"

definition restoreDefaultView :: "datamap \<Rightarrow> datamap result" where
  "restoreDefaultView m =
     (case leaflet m of
        None \<Rightarrow> Throw TypeError m
      | Some lf \<Rightarrow>
          (let lf1 = lf\<lparr>viewCalls := viewCalls lf @ [SetZoom (minZoom lf)]\<rparr> in
           case background m of
             None \<Rightarrow> Throw TypeError (m\<lparr>leaflet := Some lf1\<rparr>)
           | Some bg \<Rightarrow>
               Ok (m\<lparr>leaflet := Some (lf1\<lparr>viewCalls := viewCalls lf1 @ [FitBounds (translateBox m (bg_at bg))]\<rparr>)\<rparr>)))"

definition centreView :: "datamap \<Rightarrow> datamap result" where
  "centreView m =
     (case background m of
        None \<Rightarrow> Throw TypeError m
      | Some bg \<Rightarrow>
          (let box = translateBox m (bg_at bg) in
           case leaflet m of
             None \<Rightarrow> Throw TypeError m
           | Some lf \<Rightarrow>
               Ok (m\<lparr>leaflet := Some (lf\<lparr>viewCalls := viewCalls lf @
                     [SetView (js_div (js_add (fst (snd box)) (fst (fst box))) (Num 2),
                               js_div (js_add (snd (snd box)) (snd (fst box))) (Num 2))]\<rparr>)\<rparr>)))"


section \<open>The map as a state machine\<close>

text \<open>
  Everything that can happen to a constructed map: \<^verbatim>\<open>buildLeafletMap\<close> creating the
  Leaflet map and the group icons, the method calls, and the events the map listens
  to. An exception ends the operation that raised it, not the map.
\<close>

datatype operation =
    LeafletCreated leafletMap "string \<rightharpoonup> icon"
  | RestoreLastBackground
  | SetCurrentBackground jsindex
  | BackgroundSwitchChange jsindex
  | InstantiateMarkers markerData
  | StreamMarkersIn apiResponse
  | PollTimer
  | MouseMove rpoint
  | UpdateMarkerScaling jsnum
  | RestoreDefaultView
  | CentreView

fun perform :: "datamap \<Rightarrow> operation \<Rightarrow> datamap result" where
  "perform m (LeafletCreated lf icons) = Ok (m\<lparr>leaflet := Some lf, leafletIcons := icons\<rparr>)"
| "perform m RestoreLastBackground = restoreLastBackground m"
| "perform m (SetCurrentBackground i) = setCurrentBackground m i"
| "perform m (BackgroundSwitchChange v) = onBackgroundSwitchChange m v"
| "perform m (InstantiateMarkers data) = instantiateMarkers m data"
| "perform m (StreamMarkersIn response) = streamMarkersIn m response"
| "perform m PollTimer = onPollTimer m"
| "perform m (MouseMove latlng) = Ok (onMouseMove m latlng)"
| "perform m (UpdateMarkerScaling zoom) = updateMarkerScaling m zoom"
| "perform m RestoreDefaultView = restoreDefaultView m"
| "perform m CentreView = centreView m"

definition run :: "datamap \<Rightarrow> operation list \<Rightarrow> datamap" where
  "run m ops = foldl (\<lambda>s op. state_of (perform s op)) m ops"


section \<open>Notions used in the statements\<close>

text \<open>
  The condition of \<^verbatim>\<open>onMarkerReady\<close>: a \<^verbatim>\<open>marker\<close> parameter is present and is strictly
  equal to the marker's key.
\<close>

definition deepLinked :: "datamap \<Rightarrow> string \<Rightarrow> markerInstance \<Rightarrow> bool" where
  "deepLinked m type inst =
     (case markerIdToAutoOpen m of None \<Rightarrow> False | Some wanted \<Rightarrow> markerKey m type inst = KStr wanted)"

text \<open>
  The state after some markers have been added to the layer manager and some popups
  opened.
\<close>

definition addPlaced :: "datamap \<Rightarrow> (string \<times> leafletMarker) list \<Rightarrow> leafletMarker list \<Rightarrow> datamap" where
  "addPlaced m ms ps =
     m\<lparr>layerManager := (layerManager m)\<lparr>lm_members := lm_members (layerManager m) @ ms\<rparr>,
       openedPopups := openedPopups m @ ps\<rparr>"

text \<open>
  A payload entry that \<^verbatim>\<open>instantiateMarkers\<close> gets through: \<^verbatim>\<open>config.groups\<close> has a
  member of its group's name, or it has no placement (the loop body that reads the
  group never runs).
\<close>

definition knownGroup :: "datamap \<Rightarrow> string \<times> markerInstance list \<Rightarrow> bool" where
  "knownGroup m entry =
     (case lookupGroup (config m) (groupNameOf (fst entry)) of
        None \<Rightarrow> snd entry = []
      | Some grp \<Rightarrow> True)"

text \<open>
  The markers of a payload entry, as the loop builds them, with their marker type.
\<close>

definition placedMarkers :: "datamap \<Rightarrow> string \<times> markerInstance list \<Rightarrow> (string \<times> leafletMarker) list" where
  "placedMarkers m entry =
     (case lookupGroup (config m) (groupNameOf (fst entry)) of
        None \<Rightarrow> []
      | Some grp \<Rightarrow>
          map (\<lambda>inst. (fst entry, constructMarker m (fst entry) (groupNameOf (fst entry)) grp inst))
            (snd entry))"

text \<open>
  The markers of a payload entry whose popup the deep link opens.
\<close>

definition autoOpened :: "datamap \<Rightarrow> string \<times> markerInstance list \<Rightarrow> leafletMarker list" where
  "autoOpened m entry =
     (case lookupGroup (config m) (groupNameOf (fst entry)) of
        None \<Rightarrow> []
      | Some grp \<Rightarrow>
          map (constructMarker m (fst entry) (groupNameOf (fst entry)) grp)
            (filter (deepLinked m (fst entry)) (snd entry)))"

text \<open>
  The index \<^verbatim>\<open>setCurrentBackground\<close> uses for a requested one.
\<close>

definition clampIndex :: "datamap \<Rightarrow> int \<Rightarrow> int" where
  "clampIndex m index = (if index < 0 \<or> index \<ge> int (length (backgrounds (config m))) then 0 else index)"

text \<open>
  The selected background is the configured one at the stored index, which is in range.
\<close>

definition bgConsistent :: "datamap \<Rightarrow> bool" where
  "bgConsistent m =
     (case backgroundIndex m of
        Index i \<Rightarrow>
          0 \<le> i \<and> i < int (length (backgrounds (config m))) \<and>
          background m = Some (backgrounds (config m) ! nat i)
      | NonNumeric \<Rightarrow> False)"

text \<open>
  The orientation rule in the words of the specification: top-left when both components
  of the first corner are less than the second corner's, bottom-left when both exceed
  them, and \<open>InvalidCoordinateSpace\<close> for any other ordering.
\<close>

datatype spec_error = InvalidCoordinateSpace

definition orientation_spec :: "box \<Rightarrow> spec_error + CRSOrigin" where
  "orientation_spec b =
     (if fst (fst b) < fst (snd b) \<and> snd (fst b) < snd (snd b) then Inr TopLeft
      else if fst (snd b) < fst (fst b) \<and> snd (snd b) < snd (fst b) then Inr BottomLeft
      else Inl InvalidCoordinateSpace)"




section \<open>Example data\<close>

definition exampleStorage :: mapStorage where
  "exampleStorage =
     \<lparr> entries = Map.empty, getMarkerKey = (\<lambda>t i. KStr t), isDismissed = (\<lambda>t i. False) \<rparr>"

definition exampleGroup :: markerGroup where
  "exampleGroup =
     \<lparr> markerIcon = None, canDismiss = False, group_size = Some 4, extraMinZoomSize = None,
       fillColor = Some ''red'', strokeColor = None, strokeWidth = None \<rparr>"

text \<open>Two backgrounds, one group (\<^verbatim>\<open>chest\<close>) and one extra layer (\<^verbatim>\<open>cave\<close>).\<close>

definition exampleConfig :: "box \<Rightarrow> config" where
  "exampleConfig b =
     \<lparr> crs = b,
       backgrounds = [\<lparr> bg_name = ''surface'', bg_at = b, bg_layers = [0] \<rparr>,
                      \<lparr> bg_name = ''caves'', bg_at = b, bg_layers = [1, 2] \<rparr>],
       groups = [''chest'' \<mapsto> exampleGroup],
       layerIds = [''cave''] \<rparr>"

definition exampleLeaflet :: leafletMap where
  "exampleLeaflet =
     \<lparr> lf_layers = [], minZoom = Num 2, maxZoom = Num 5, markerScaleI = Num 1,
       markerScaleA = Num 1, viewCalls = [] \<rparr>"

text \<open>A constructed map whose Leaflet map exists.\<close>

definition exampleMap :: "box \<Rightarrow> string option \<Rightarrow> datamap" where
  "exampleMap b urlMarker =
     (DataMap (exampleConfig b) exampleStorage urlMarker)\<lparr>leaflet := Some exampleLeaflet\<rparr>"

text \<open>
  Two placements, the second with an explicit \<^verbatim>\<open>uid\<close>; a payload whose marker types all
  name the configured group, and one whose second marker type names an unknown group.
\<close>

definition chestA :: markerInstance where
  "chestA = \<lparr> inst_lat = 10, inst_lon = 20, inst_slots = None \<rparr>"

definition chestB :: markerInstance where
  "chestB =
     \<lparr> inst_lat = 30, inst_lon = 40,
       inst_slots = Some \<lparr> uid = Some (KStr ''b7''), slot_label = None \<rparr> \<rparr>"

definition examplePayload :: markerData where
  "examplePayload = [(''chest'', [chestA]), (''chest cave'', [chestB])]"

definition brokenPayload :: markerData where
  "brokenPayload = [(''chest'', [chestA]), (''ghost'', [chestB])]"

text \<open>A payload whose marker type is the name of a member of \<^verbatim>\<open>Object.prototype\<close>.\<close>

definition inheritedPayload :: markerData where
  "inheritedPayload = [(''constructor'', [chestA])]"


section \<open>Properties of the operations\<close>

lemma addPlaced_Nil [simp]: "addPlaced m [] [] = m"
  by (simp add: addPlaced_def)

lemma addPlaced_addPlaced [simp]: "addPlaced (addPlaced m a b) c d = addPlaced m (a @ c) (b @ d)"
  by (simp add: addPlaced_def)

lemma constructMarker_addPlaced [simp]:
  "constructMarker (addPlaced m a b) t g grp = constructMarker m t g grp"
  by (rule ext) (simp add: constructMarker_def addPlaced_def translatePoint_def Let_def cong: if_cong)

lemma markerKey_layerManager [simp]: "markerKey (m\<lparr>layerManager := x\<rparr>) t inst = markerKey m t inst"
  by (simp add: markerKey_def cong: option.case_cong)

lemma markerKey_addPlaced [simp]: "markerKey (addPlaced m a b) t inst = markerKey m t inst"
  by (simp add: markerKey_def addPlaced_def cong: option.case_cong)

lemma deepLinked_addPlaced [simp]: "deepLinked (addPlaced m a b) t = deepLinked m t"
  by (rule ext) (simp add: deepLinked_def split: option.splits, simp add: addPlaced_def)

lemma placeInstance_Some:
  "placeInstance t g (Some grp) m inst =
     Ok (addPlaced m [(t, constructMarker m t g grp inst)]
           (if deepLinked m t inst then [constructMarker m t g grp inst] else []))"
  by (cases "markerIdToAutoOpen m")
     (simp_all add: placeInstance_def Let_def onMarkerReady_def deepLinked_def addPlaced_def
        lm_addMember_def)

lemma forEachR_placeInstance_Some:
  "forEachR (placeInstance t g (Some grp)) insts m =
     Ok (addPlaced m (map (\<lambda>inst. (t, constructMarker m t g grp inst)) insts)
           (map (constructMarker m t g grp) (filter (deepLinked m t) insts)))"
proof (induction insts arbitrary: m)
  case Nil
  show ?case by simp
next
  case (Cons inst insts)
  have "forEachR (placeInstance t g (Some grp)) (inst # insts) m =
        forEachR (placeInstance t g (Some grp)) insts
          (addPlaced m [(t, constructMarker m t g grp inst)]
             (if deepLinked m t inst then [constructMarker m t g grp inst] else []))"
    by (simp only: forEachR.simps placeInstance_Some result.case)
  also have "\<dots> = Ok (addPlaced m (map (\<lambda>inst. (t, constructMarker m t g grp inst)) (inst # insts))
           (map (constructMarker m t g grp) (filter (deepLinked m t) (inst # insts))))"
    unfolding Cons.IH by simp
  finally show ?case .
qed

lemma forEachR_placeInstance_None:
  "forEachR (placeInstance t g None) insts m = (if insts = [] then Ok m else Throw TypeError m)"
  by (cases insts) (simp_all add: placeInstance_def)

lemma knownGroup_addPlaced [simp]: "knownGroup (addPlaced m a b) = knownGroup m"
  by (rule ext) (simp add: knownGroup_def addPlaced_def)

lemma placedMarkers_addPlaced [simp]: "placedMarkers (addPlaced m a b) = placedMarkers m"
  by (rule ext) (simp add: placedMarkers_def split: option.splits, simp add: addPlaced_def)

lemma autoOpened_addPlaced [simp]: "autoOpened (addPlaced m a b) = autoOpened m"
  by (rule ext) (simp add: autoOpened_def split: option.splits, simp add: addPlaced_def)

lemma unpackMarkers_eq:
  "unpackMarkers m e =
     (if knownGroup m e then Ok (addPlaced m (placedMarkers m e) (autoOpened m e))
      else Throw TypeError m)"
  by (cases "lookupGroup (config m) (groupNameOf (fst e))")
     (simp_all add: unpackMarkers_def Let_def knownGroup_def placedMarkers_def autoOpened_def
        forEachR_placeInstance_None forEachR_placeInstance_Some)

lemma forEachR_unpackMarkers:
  "forEachR unpackMarkers data m =
     (if list_all (knownGroup m) data
      then Ok (addPlaced m (concat (map (placedMarkers m) data)) (concat (map (autoOpened m) data)))
      else Throw TypeError
             (addPlaced m (concat (map (placedMarkers m) (takeWhile (knownGroup m) data)))
                (concat (map (autoOpened m) (takeWhile (knownGroup m) data)))))"
proof (induction data arbitrary: m)
  case Nil
  show ?case by simp
next
  case (Cons e data)
  show ?case
  proof (cases "knownGroup m e")
    case True
    then have "forEachR unpackMarkers (e # data) m =
        forEachR unpackMarkers data (addPlaced m (placedMarkers m e) (autoOpened m e))"
      by (simp add: unpackMarkers_eq)
    then show ?thesis
      using True by (simp add: Cons.IH)
  next
    case False
    then show ?thesis
      by (simp add: unpackMarkers_eq)
  qed
qed

lemma lm_members_register [simp]: "lm_members (lm_register lm name) = lm_members lm"
  by (simp add: lm_register_def)

lemma lm_members_foldl_register [simp]: "lm_members (foldl lm_register lm names) = lm_members lm"
  by (induction names arbitrary: lm) simp_all

lemma foldl_registerLayers:
  "\<exists>lm. foldl registerLayers m ts = m\<lparr>layerManager := lm\<rparr> \<and> lm_members lm = lm_members (layerManager m)"
proof (induction ts arbitrary: m)
  case Nil
  show ?case by (rule exI [of _ "layerManager m"]) simp
next
  case (Cons t ts)
  let ?m1 = "registerLayers m t"
  from Cons.IH [of ?m1] obtain lm where
    f: "foldl registerLayers ?m1 ts = ?m1\<lparr>layerManager := lm\<rparr>" and
    g: "lm_members lm = lm_members (layerManager ?m1)" by blast
  have a: "?m1\<lparr>layerManager := lm\<rparr> = m\<lparr>layerManager := lm\<rparr>"
    by (simp add: registerLayers_def)
  have b: "lm_members (layerManager ?m1) = lm_members (layerManager m)"
    by (simp add: registerLayers_def)
  have "foldl registerLayers m (t # ts) = m\<lparr>layerManager := lm\<rparr>"
    by (simp only: foldl_Cons f a)
  moreover have "lm_members lm = lm_members (layerManager m)"
    by (simp only: g b)
  ultimately show ?case by blast
qed

lemma constructMarker_layerManager [simp]:
  "constructMarker (m\<lparr>layerManager := x\<rparr>) = constructMarker m"
  by (intro ext) (simp add: constructMarker_def translatePoint_def Let_def cong: if_cong)

lemma deepLinked_layerManager [simp]: "deepLinked (m\<lparr>layerManager := x\<rparr>) = deepLinked m"
  by (intro ext) (simp add: deepLinked_def cong: option.case_cong)

lemma knownGroup_layerManager [simp]: "knownGroup (m\<lparr>layerManager := x\<rparr>) = knownGroup m"
  by (rule ext) (simp add: knownGroup_def)

lemma placedMarkers_layerManager [simp]: "placedMarkers (m\<lparr>layerManager := x\<rparr>) = placedMarkers m"
  by (rule ext) (simp add: placedMarkers_def cong: option.case_cong)

lemma autoOpened_layerManager [simp]: "autoOpened (m\<lparr>layerManager := x\<rparr>) = autoOpened m"
  by (rule ext) (simp add: autoOpened_def cong: option.case_cong)

lemma instantiateMarkers_eq:
  "\<exists>lm. lm_members lm = lm_members (layerManager m) \<and>
     instantiateMarkers m data =
       (if list_all (knownGroup m) data
        then Ok (addPlaced (m\<lparr>layerManager := lm\<rparr>)
                   (concat (map (placedMarkers m) data)) (concat (map (autoOpened m) data)))
        else Throw TypeError
               (addPlaced (m\<lparr>layerManager := lm\<rparr>)
                  (concat (map (placedMarkers m) (takeWhile (knownGroup m) data)))
                  (concat (map (autoOpened m) (takeWhile (knownGroup m) data)))))"
proof -
  obtain lm where lm: "foldl registerLayers m (map fst data) = m\<lparr>layerManager := lm\<rparr>"
    "lm_members lm = lm_members (layerManager m)"
    using foldl_registerLayers by blast
  show ?thesis
    by (rule exI [of _ lm]) (simp add: lm instantiateMarkers_def forEachR_unpackMarkers)
qed

lemma forEachR_pushLayer_frame: "\<exists>lf. state_of (forEachR pushLayer xs m) = m\<lparr>leaflet := lf\<rparr>"
proof (induction xs arbitrary: m)
  case Nil
  show ?case by (rule exI [of _ "leaflet m"]) simp
next
  case (Cons x xs)
  show ?case
  proof (cases "leaflet m")
    case None
    then have "pushLayer m x = Throw TypeError m" by (simp add: pushLayer_def)
    then show ?thesis using None by (intro exI [of _ None]) simp
  next
    case (Some lf)
    let ?m1 = "m\<lparr>leaflet := Some (lf_bringToBack x (lf_addTo x lf))\<rparr>"
    from Cons.IH [of ?m1] obtain lf' where "state_of (forEachR pushLayer xs ?m1) = ?m1\<lparr>leaflet := lf'\<rparr>" ..
    moreover have "pushLayer m x = Ok ?m1" using Some by (simp add: pushLayer_def)
    ultimately show ?thesis by (intro exI [of _ lf']) simp
  qed
qed

lemma setCurrentBackground_frame:
  "\<exists>lf. state_of (setCurrentBackground m index0) =
     m\<lparr>leaflet := lf,
       background := backgroundAt (backgrounds (config m))
          (if outOfRange index0 (length (backgrounds (config m))) then Index 0 else index0),
       backgroundIndex :=
          (if outOfRange index0 (length (backgrounds (config m))) then Index 0 else index0)\<rparr>"
proof -
  define m1 where "m1 = (case background m of None \<Rightarrow> m
     | Some bg \<Rightarrow> m\<lparr>leaflet := removeLayers (bg_layers bg) (leaflet m), background := None\<rparr>)"
  define index where
    "index = (if outOfRange index0 (length (backgrounds (config m))) then Index 0 else index0)"
  have m1: "m1 = m\<lparr>leaflet := leaflet m1, background := background m1\<rparr>"
    by (cases "background m") (simp_all add: m1_def)
  have c: "config m1 = config m"
    by (cases "background m") (simp_all add: m1_def)
  let ?m2 = "m1\<lparr>background := backgroundAt (backgrounds (config m)) index, backgroundIndex := index\<rparr>"
  have m2: "?m2\<lparr>leaflet := lf\<rparr> =
      m\<lparr>leaflet := lf, background := backgroundAt (backgrounds (config m)) index,
        backgroundIndex := index\<rparr>" for lf
    by (subst m1) simp
  have eq: "setCurrentBackground m index0 =
      (case backgroundAt (backgrounds (config m)) index of
         None \<Rightarrow> Throw TypeError ?m2
       | Some bg \<Rightarrow> forEachR pushLayer (bg_layers bg) ?m2)"
    unfolding setCurrentBackground_def Let_def m1_def [symmetric] c index_def [symmetric]
    by simp
  show ?thesis
  proof (cases "backgroundAt (backgrounds (config m)) index")
    case None
    then have "state_of (setCurrentBackground m index0) = ?m2\<lparr>leaflet := leaflet m1\<rparr>"
      by (simp add: eq)
    also note m2
    finally show ?thesis
      unfolding index_def by blast
  next
    case (Some bg)
    obtain lf where "state_of (forEachR pushLayer (bg_layers bg) ?m2) = ?m2\<lparr>leaflet := lf\<rparr>"
      using forEachR_pushLayer_frame by blast
    with Some have "state_of (setCurrentBackground m index0) = ?m2\<lparr>leaflet := lf\<rparr>"
      by (simp add: eq)
    also note m2
    finally show ?thesis
      unfolding index_def by blast
  qed
qed

lemma instantiateMarkers_frame:
  "\<exists>lm ps. state_of (instantiateMarkers m data) = m\<lparr>layerManager := lm, openedPopups := ps\<rparr>"
proof -
  obtain lm where
    "instantiateMarkers m data =
       (if list_all (knownGroup m) data
        then Ok (addPlaced (m\<lparr>layerManager := lm\<rparr>)
                   (concat (map (placedMarkers m) data)) (concat (map (autoOpened m) data)))
        else Throw TypeError
               (addPlaced (m\<lparr>layerManager := lm\<rparr>)
                  (concat (map (placedMarkers m) (takeWhile (knownGroup m) data)))
                  (concat (map (autoOpened m) (takeWhile (knownGroup m) data)))))"
    using instantiateMarkers_eq by blast
  then show ?thesis
    by (cases "list_all (knownGroup m) data") (simp_all add: addPlaced_def, blast+)
qed

lemma ingest_frame:
  "\<exists>lm ps cb. state_of (ingest m data) = m\<lparr>layerManager := lm, openedPopups := ps, callbackLog := cb\<rparr>"
proof -
  obtain lm ps where f: "state_of (instantiateMarkers m data) = m\<lparr>layerManager := lm, openedPopups := ps\<rparr>"
    using instantiateMarkers_frame by blast
  show ?thesis
  proof (cases "instantiateMarkers m data")
    case (Ok m')
    with f have "state_of (ingest m data) =
        m\<lparr>layerManager := lm, openedPopups := ps, callbackLog := callbackLog m' @ [SuccessCallback]\<rparr>"
      by (simp add: ingest_def)
    then show ?thesis by blast
  next
    case (Throw e m')
    with f have "state_of (ingest m data) =
        m\<lparr>layerManager := lm, openedPopups := ps, callbackLog := callbackLog m\<rparr>"
      by (simp add: ingest_def)
    then show ?thesis by blast
  qed
qed

lemma ingest_preserves [simp]:
  "config (state_of (ingest m data)) = config m"
  "crsOrigin (state_of (ingest m data)) = crsOrigin m"
  "crsScaleX (state_of (ingest m data)) = crsScaleX m"
  "crsScaleY (state_of (ingest m data)) = crsScaleY m"
  "background (state_of (ingest m data)) = background m"
  "backgroundIndex (state_of (ingest m data)) = backgroundIndex m"
  using ingest_frame [of m data] by auto

lemma instantiateMarkers_preserves [simp]:
  "config (state_of (instantiateMarkers m data)) = config m"
  "crsOrigin (state_of (instantiateMarkers m data)) = crsOrigin m"
  "crsScaleX (state_of (instantiateMarkers m data)) = crsScaleX m"
  "crsScaleY (state_of (instantiateMarkers m data)) = crsScaleY m"
  "background (state_of (instantiateMarkers m data)) = background m"
  "backgroundIndex (state_of (instantiateMarkers m data)) = backgroundIndex m"
  using instantiateMarkers_frame [of m data] by auto

lemma setCurrentBackground_preserves [simp]:
  "config (state_of (setCurrentBackground m i)) = config m"
  "crsOrigin (state_of (setCurrentBackground m i)) = crsOrigin m"
  "crsScaleX (state_of (setCurrentBackground m i)) = crsScaleX m"
  "crsScaleY (state_of (setCurrentBackground m i)) = crsScaleY m"
  "storage (state_of (setCurrentBackground m i)) = storage m"
  using setCurrentBackground_frame [of m i] by auto

lemma clamped_index:
  "(if outOfRange (Index i) (length bgs) then Index 0 else Index i) =
     Index (if i < 0 \<or> int (length bgs) \<le> i then 0 else i)"
  by (simp add: outOfRange_def)

lemma backgroundAt_clamped:
  "backgroundAt bgs (Index (if i < 0 \<or> int (length bgs) \<le> i then 0 else i)) =
     (if bgs = [] then None else Some (bgs ! nat (if i < 0 \<or> int (length bgs) \<le> i then 0 else i)))"
  by (auto simp: backgroundAt_def)

lemma setCurrentBackground_bgConsistent:
  "backgrounds (config m) \<noteq> [] \<Longrightarrow> bgConsistent (state_of (setCurrentBackground m (Index i)))"
  using setCurrentBackground_frame [of m "Index i"]
  by (auto simp: bgConsistent_def clamped_index backgroundAt_clamped simp del: if_split split: if_splits)

lemma onBackgroundSwitchChange_state:
  "state_of (onBackgroundSwitchChange m v) = state_of (setCurrentBackground m v) \<or>
   state_of (onBackgroundSwitchChange m v) =
     (state_of (setCurrentBackground m v))\<lparr>storage := storage_set (storage m) ''background'' v\<rparr>"
  by (cases "setCurrentBackground m v")
     (simp_all add: onBackgroundSwitchChange_def, metis setCurrentBackground_preserves(5) state_of.simps(1))

lemma perform_preserves:
  "config (state_of (perform m op)) = config m \<and>
   crsOrigin (state_of (perform m op)) = crsOrigin m \<and>
   crsScaleX (state_of (perform m op)) = crsScaleX m \<and>
   crsScaleY (state_of (perform m op)) = crsScaleY m"
proof (cases op)
  case (BackgroundSwitchChange v)
  then show ?thesis
    using onBackgroundSwitchChange_state [of m v] by auto
next
  case (StreamMarkersIn response)
  then show ?thesis
    by (cases response) (auto simp: streamMarkersIn_def waitForLeaflet_def)
next
  case PollTimer
  then show ?thesis
    by (cases "waiting m") (auto simp: onPollTimer_def)
qed (auto simp: restoreLastBackground_def onMouseMove_def updateMarkerScaling_def
       restoreDefaultView_def centreView_def Let_def split: option.splits)

lemma run_preserves:
  "config (run m ops) = config m \<and> crsOrigin (run m ops) = crsOrigin m \<and>
   crsScaleX (run m ops) = crsScaleX m \<and> crsScaleY (run m ops) = crsScaleY m"
proof (induction ops arbitrary: m)
  case Nil
  show ?case by (simp add: run_def)
next
  case (Cons op ops)
  have "run m (op # ops) = run (state_of (perform m op)) ops"
    by (simp add: run_def)
  then show ?case
    using Cons.IH [of "state_of (perform m op)"] perform_preserves [of m op] by simp
qed


lemma fl_small [simp]: "\<bar>r\<bar> \<le> 1000000000 \<Longrightarrow> fl r = Num r"
  by (simp add: fl_def overflowThreshold_def)


lemma isFinite_fl: "isFinite (fl r) \<longleftrightarrow> \<bar>r\<bar> < overflowThreshold"
  by (auto simp: fl_def signedInf_def)

lemma isFinite_Num: "isFinite x \<Longrightarrow> \<exists>r. x = Num r"
  by (cases x) simp_all


lemma translateBox_TopLeft:
  "crsOrigin m = TopLeft \<Longrightarrow> translateBox m box = (translatePoint m (fst box), translatePoint m (snd box))"
  by (simp add: translateBox_def translatePoint_def)

lemma translateBox_BottomLeft:
  "crsOrigin m = BottomLeft \<Longrightarrow>
   translateBox m box =
     (translatePoint m (fst box),
      (fst (translatePoint m (snd box)), js_mul (Num (fst (snd box))) (crsScaleX m)))"
  by (simp add: translateBox_def translatePoint_def)





lemma onMouseMove_shows_native:
  assumes "renderToNative m (translatePoint m p) = (Num (fst p), Num (snd p))"
    and "translatePoint m p = (Num lat, Num lon)"
    and "- 5 \<le> lat" "lat \<le> 105" "- 5 \<le> lon" "lon \<le> 105"
  shows "coordTrackerText (onMouseMove m (translatePoint m p)) = Some (Num (fst p), Num (snd p))"
  using assms by (simp add: onMouseMove_def js_ge_def)


lemma groupNameOf_examples [simp]:
  "groupNameOf ''chest'' = ''chest''" "groupNameOf ''chest cave'' = ''chest''"
  "groupNameOf ''ghost'' = ''ghost''" "groupNameOf ''constructor'' = ''constructor''"
  by (simp_all add: groupNameOf_def)

lemma lookupGroup_examples [simp]:
  "lookupGroup (exampleConfig b) ''chest'' = Some exampleGroup"
  "lookupGroup (exampleConfig b) ''ghost'' = None"
  "lookupGroup (exampleConfig b) ''constructor'' = Some inheritedMember"
  by (simp_all add: lookupGroup_def exampleConfig_def objectPrototypeMembers_def)

lemma ingest_eq:
  "\<exists>lm. lm_members lm = lm_members (layerManager m) \<and>
     ingest m data =
       (if list_all (knownGroup m) data
        then Ok (addPlaced (m\<lparr>layerManager := lm, callbackLog := callbackLog m @ [SuccessCallback]\<rparr>)
                   (concat (map (placedMarkers m) data)) (concat (map (autoOpened m) data)))
        else Throw TypeError
               (addPlaced (m\<lparr>layerManager := lm\<rparr>)
                  (concat (map (placedMarkers m) (takeWhile (knownGroup m) data)))
                  (concat (map (autoOpened m) (takeWhile (knownGroup m) data)))))"
proof -
  obtain lm where lm: "lm_members lm = lm_members (layerManager m)" and
    eq: "instantiateMarkers m data =
       (if list_all (knownGroup m) data
        then Ok (addPlaced (m\<lparr>layerManager := lm\<rparr>)
                   (concat (map (placedMarkers m) data)) (concat (map (autoOpened m) data)))
        else Throw TypeError
               (addPlaced (m\<lparr>layerManager := lm\<rparr>)
                  (concat (map (placedMarkers m) (takeWhile (knownGroup m) data)))
                  (concat (map (autoOpened m) (takeWhile (knownGroup m) data)))))"
    using instantiateMarkers_eq by blast
  show ?thesis
    by (rule exI [of _ lm]) (simp add: lm eq ingest_def addPlaced_def)
qed

lemma knownGroup_examples:
  "list_all (knownGroup (exampleMap b u)) examplePayload"
  "\<not> list_all (knownGroup (exampleMap b u)) brokenPayload"
  "takeWhile (knownGroup (exampleMap b u)) brokenPayload = [(''chest'', [chestA])]"
  "list_all (knownGroup (exampleMap b u)) inheritedPayload"
  by (simp_all add: knownGroup_def exampleMap_def DataMap_def examplePayload_def
        brokenPayload_def inheritedPayload_def chestB_def)

lemma placedMarkers_examples:
  "concat (map (placedMarkers (exampleMap ((100, 100), (0, 0)) u)) examplePayload) =
     [(''chest'', CircleMarker (Num 10, Num 20) (Num 2) None (Some ''red'') (Some ''red'') 1),
      (''chest cave'', CircleMarker (Num 30, Num 40) (Num 2) None (Some ''red'') (Some ''red'') 1)]"
  "concat (map (placedMarkers (exampleMap ((100, 100), (0, 0)) u)) [(''chest'', [chestA])]) =
     [(''chest'', CircleMarker (Num 10, Num 20) (Num 2) None (Some ''red'') (Some ''red'') 1)]"
  "concat (map (placedMarkers (exampleMap ((100, 100), (0, 0)) u)) inheritedPayload) =
     [(''constructor'', CircleMarker (Num 10, Num 20) NaN None None None 1)]"
  by (simp_all add: placedMarkers_def constructMarker_def translatePoint_def exampleMap_def
        DataMap_def exampleGroup_def inheritedMember_def examplePayload_def inheritedPayload_def
        chestA_def chestB_def exampleConfig_def lookupGroup_def objectPrototypeMembers_def)

lemma autoOpened_no_parameter:
  "markerIdToAutoOpen m = None \<Longrightarrow> concat (map (autoOpened m) data) = []"
  by (induction data) (simp_all add: autoOpened_def deepLinked_def [abs_def] split: option.splits)

lemma removeLayers_Some:
  "\<exists>lf'. removeLayers xs (Some lf) = Some lf' \<and> set (lf_layers lf') = set (lf_layers lf) - set xs"
proof (induction xs arbitrary: lf)
  case Nil
  show ?case by (simp add: removeLayers_def)
next
  case (Cons x xs)
  from Cons.IH [of "lf_remove x lf"] obtain lf' where
    "removeLayers xs (Some (lf_remove x lf)) = Some lf'"
    "set (lf_layers lf') = set (lf_layers (lf_remove x lf)) - set xs" by blast
  then show ?case
    by (intro exI [of _ lf']) (auto simp: removeLayers_def lf_remove_def)
qed

lemma forEachR_pushLayer_Some:
  "leaflet m = Some lf \<Longrightarrow>
   \<exists>lf'. forEachR pushLayer xs m = Ok (m\<lparr>leaflet := Some lf'\<rparr>) \<and>
     set (lf_layers lf') = set (lf_layers lf) \<union> set xs"
proof (induction xs arbitrary: m lf)
  case Nil
  then show ?case by (intro exI [of _ lf]) simp
next
  case (Cons x xs)
  let ?lf1 = "lf_bringToBack x (lf_addTo x lf)"
  let ?m1 = "m\<lparr>leaflet := Some ?lf1\<rparr>"
  have p: "pushLayer m x = Ok ?m1"
    using Cons.prems by (simp add: pushLayer_def)
  have s1: "set (lf_layers ?lf1) = insert x (set (lf_layers lf))"
    by (auto simp: lf_bringToBack_def lf_addTo_def)
  from Cons.IH [of ?m1 ?lf1] obtain lf' where
    "forEachR pushLayer xs ?m1 = Ok (?m1\<lparr>leaflet := Some lf'\<rparr>)"
    "set (lf_layers lf') = set (lf_layers ?lf1) \<union> set xs" by auto
  then show ?case
    using p s1 by (intro exI [of _ lf']) simp
qed

lemma setCurrentBackground_Ok:
  assumes "leaflet m = Some lf" and "backgrounds (config m) \<noteq> []"
  shows "\<exists>lf'. setCurrentBackground m (Index i) =
           Ok (m\<lparr>leaflet := Some lf',
                 background := Some (backgrounds (config m) ! nat (clampIndex m i)),
                 backgroundIndex := Index (clampIndex m i)\<rparr>) \<and>
         set (lf_layers lf') =
           (set (lf_layers lf) - (case background m of None \<Rightarrow> {} | Some bg \<Rightarrow> set (bg_layers bg)))
             \<union> set (bg_layers (backgrounds (config m) ! nat (clampIndex m i)))"
proof -
  define m1 where "m1 = (case background m of None \<Rightarrow> m
     | Some bg \<Rightarrow> m\<lparr>leaflet := removeLayers (bg_layers bg) (leaflet m), background := None\<rparr>)"
  have m1: "m1 = m\<lparr>leaflet := leaflet m1, background := background m1\<rparr>"
    by (cases "background m") (simp_all add: m1_def)
  have c: "config m1 = config m"
    by (cases "background m") (simp_all add: m1_def)
  obtain lf1 where lf1: "leaflet m1 = Some lf1"
    "set (lf_layers lf1) =
       set (lf_layers lf) - (case background m of None \<Rightarrow> {} | Some bg \<Rightarrow> set (bg_layers bg))"
  proof (cases "background m")
    case None
    then show ?thesis using assms(1) that [of lf] by (simp add: m1_def)
  next
    case (Some bg)
    obtain lf' where "removeLayers (bg_layers bg) (Some lf) = Some lf'"
      "set (lf_layers lf') = set (lf_layers lf) - set (bg_layers bg)"
      using removeLayers_Some by blast
    then show ?thesis using Some assms(1) that [of lf'] by (simp add: m1_def)
  qed
  let ?bg = "backgrounds (config m) ! nat (clampIndex m i)"
  let ?m2 = "m1\<lparr>background := Some ?bg, backgroundIndex := Index (clampIndex m i)\<rparr>"
  have ix: "(if outOfRange (Index i) (length (backgrounds (config m))) then Index 0 else Index i)
      = Index (clampIndex m i)"
    by (simp add: clamped_index clampIndex_def)
  have at: "backgroundAt (backgrounds (config m)) (Index (clampIndex m i)) = Some ?bg"
    using assms(2) by (auto simp: backgroundAt_def clampIndex_def)
  have eq: "setCurrentBackground m (Index i) = forEachR pushLayer (bg_layers ?bg) ?m2"
    unfolding setCurrentBackground_def Let_def m1_def [symmetric] c ix
    by (simp add: at)
  have "leaflet ?m2 = Some lf1" using lf1 by simp
  from forEachR_pushLayer_Some [OF this, of "bg_layers ?bg"] obtain lf' where
    r: "forEachR pushLayer (bg_layers ?bg) ?m2 = Ok (?m2\<lparr>leaflet := Some lf'\<rparr>)"
    "set (lf_layers lf') = set (lf_layers lf1) \<union> set (bg_layers ?bg)" by blast
  have "?m2\<lparr>leaflet := Some lf'\<rparr> =
      m\<lparr>leaflet := Some lf', background := Some ?bg, backgroundIndex := Index (clampIndex m i)\<rparr>"
    by (subst m1) simp
  with eq r lf1 show ?thesis by (intro exI [of _ lf']) simp
qed

lemma setCurrentBackground_NonNumeric:
  "\<exists>lf. setCurrentBackground m NonNumeric =
     Throw TypeError (m\<lparr>leaflet := lf, background := None, backgroundIndex := NonNumeric\<rparr>)"
proof -
  define m1 where "m1 = (case background m of None \<Rightarrow> m
     | Some bg \<Rightarrow> m\<lparr>leaflet := removeLayers (bg_layers bg) (leaflet m), background := None\<rparr>)"
  have m1: "m1 = m\<lparr>leaflet := leaflet m1, background := background m1\<rparr>"
    by (cases "background m") (simp_all add: m1_def)
  have "setCurrentBackground m NonNumeric =
      Throw TypeError (m1\<lparr>background := None, backgroundIndex := NonNumeric\<rparr>)"
    unfolding setCurrentBackground_def Let_def m1_def [symmetric]
    by (simp add: outOfRange_def backgroundAt_def)
  also have "m1\<lparr>background := None, backgroundIndex := NonNumeric\<rparr> =
      m\<lparr>leaflet := leaflet m1, background := None, backgroundIndex := NonNumeric\<rparr>"
    by (subst m1) simp
  finally show ?thesis by blast
qed


section \<open>Claims about the coordinate transform\<close>

text \<open>
  Claim C1, as the code has it. The origin is top-left exactly when both components of
  the first corner are strictly less than the second corner's. When both exceed them
  the origin is bottom-left, and so it is for every other ordering, where the
  specification asks for \<open>InvalidCoordinateSpace\<close>: the constructor is a total function
  and always produces a transform.
\<close>

theorem C1_orientation:
  "(crsOrigin (DataMap cfg st u) = TopLeft \<longleftrightarrow>
      fst (fst (crs cfg)) < fst (snd (crs cfg)) \<and> snd (fst (crs cfg)) < snd (snd (crs cfg))) \<and>
   (fst (snd (crs cfg)) < fst (fst (crs cfg)) \<and> snd (snd (crs cfg)) < snd (fst (crs cfg))
      \<longrightarrow> crsOrigin (DataMap cfg st u) = BottomLeft) \<and>
   (orientation_spec (crs cfg) = Inl InvalidCoordinateSpace
      \<longrightarrow> crsOrigin (DataMap cfg st u) = BottomLeft)"
  by (auto simp: DataMap_def orientation_spec_def split: if_splits)

text \<open>C1 at the three kinds of ordering: both less, both greater, mixed.\<close>

theorem C1_orientation_witness:
  "crsOrigin (DataMap (exampleConfig ((0, 0), (100, 100))) exampleStorage None) = TopLeft \<and>
   crsOrigin (DataMap (exampleConfig ((100, 100), (0, 0))) exampleStorage None) = BottomLeft \<and>
   crsOrigin (DataMap (exampleConfig ((0, 100), (100, 0))) exampleStorage None) = BottomLeft"
  using C1_orientation [of "exampleConfig ((0, 0), (100, 100))" exampleStorage None]
    C1_orientation [of "exampleConfig ((100, 100), (0, 0))" exampleStorage None]
    C1_orientation [of "exampleConfig ((0, 100), (100, 0))" exampleStorage None]
  by (simp add: exampleConfig_def orientation_spec_def)

text \<open>
  The corners \<^verbatim>\<open>[[0,100],[100,0]]\<close> are neither both less nor both greater. The
  specification's rule gives \<open>InvalidCoordinateSpace\<close>; the constructor returns a
  bottom-left transform with both scale factors 1, and the transform maps points.
\<close>

theorem C1_mixed_ordering_counterexample:
  "orientation_spec (crs (exampleConfig ((0, 100), (100, 0)))) = Inl InvalidCoordinateSpace \<and>
   crsOrigin (DataMap (exampleConfig ((0, 100), (100, 0))) exampleStorage None) = BottomLeft \<and>
   crsScaleY (DataMap (exampleConfig ((0, 100), (100, 0))) exampleStorage None) = Num 1 \<and>
   crsScaleX (DataMap (exampleConfig ((0, 100), (100, 0))) exampleStorage None) = Num 1 \<and>
   translatePoint (DataMap (exampleConfig ((0, 100), (100, 0))) exampleStorage None) (25, 75)
     = (Num 25, Num 75)"
  by (simp add: exampleConfig_def orientation_spec_def DataMap_def translatePoint_def)

text \<open>
  Claim C2, as the code has it. With bounds \<^verbatim>\<open>[[0,0],[100,100]]\<close> the first corner is the
  smaller one, so the origin is top-left and the native point \<^verbatim>\<open>[25,75]\<close> maps to
  \<^verbatim>\<open>[75,75]\<close>: the flip is \<^verbatim>\<open>crs[1][0] - point[0]\<close> on the first component. With bounds
  \<^verbatim>\<open>[[100,100],[0,0]]\<close> the origin is bottom-left and the point maps to \<^verbatim>\<open>[25,75]\<close>.
\<close>

theorem C2_scenario:
  "crsOrigin (DataMap (cfg\<lparr>crs := ((0, 0), (100, 100))\<rparr>) st u) = TopLeft \<and>
   translatePoint (DataMap (cfg\<lparr>crs := ((0, 0), (100, 100))\<rparr>) st u) (25, 75) = (Num 75, Num 75) \<and>
   crsOrigin (DataMap (cfg\<lparr>crs := ((100, 100), (0, 0))\<rparr>) st u) = BottomLeft \<and>
   translatePoint (DataMap (cfg\<lparr>crs := ((100, 100), (0, 0))\<rparr>) st u) (25, 75) = (Num 25, Num 75)"
  by (simp add: DataMap_def translatePoint_def)

text \<open>Each of the four statements of the scenario of C2 fails on the code.\<close>

theorem C2_scenario_counterexample:
  "crsOrigin (DataMap (exampleConfig ((0, 0), (100, 100))) exampleStorage None) \<noteq> BottomLeft \<and>
   translatePoint (DataMap (exampleConfig ((0, 0), (100, 100))) exampleStorage None) (25, 75)
     \<noteq> (Num 25, Num 75) \<and>
   crsOrigin (DataMap (exampleConfig ((100, 100), (0, 0))) exampleStorage None) \<noteq> TopLeft \<and>
   translatePoint (DataMap (exampleConfig ((100, 100), (0, 0))) exampleStorage None) (25, 75)
     \<noteq> (Num 25, Num 25)"
  by (simp add: exampleConfig_def DataMap_def translatePoint_def)

text \<open>
  Claim C3 says that \<^verbatim>\<open>translateBox\<close> is \<^verbatim>\<open>translatePoint\<close> on both corners. On a
  bottom-left map the second output corner repeats \<^verbatim>\<open>box[1][0]\<close>: the box
  \<^verbatim>\<open>[[60,70],[40,30]]\<close> comes out as \<^verbatim>\<open>[[60,70],[40,40]]\<close>, while \<^verbatim>\<open>translatePoint\<close> maps
  its corners to \<^verbatim>\<open>[60,70]\<close> and \<^verbatim>\<open>[40,30]\<close>. The top-left branch agrees with
  \<^verbatim>\<open>translatePoint\<close> (lemma \<open>translateBox_TopLeft\<close>).
\<close>

theorem C3_translateBox_second_corner:
  "crsOrigin (DataMap (cfg\<lparr>crs := ((100, 100), (0, 0))\<rparr>) st u) = BottomLeft \<and>
   translateBox (DataMap (cfg\<lparr>crs := ((100, 100), (0, 0))\<rparr>) st u) ((60, 70), (40, 30))
     = ((Num 60, Num 70), (Num 40, Num 40)) \<and>
   translatePoint (DataMap (cfg\<lparr>crs := ((100, 100), (0, 0))\<rparr>) st u) (60, 70) = (Num 60, Num 70) \<and>
   translatePoint (DataMap (cfg\<lparr>crs := ((100, 100), (0, 0))\<rparr>) st u) (40, 30) = (Num 40, Num 30)"
  by (simp add: DataMap_def translateBox_def translatePoint_def)




text \<open>
  Claim C9. The constructor computes \<^verbatim>\<open>crsScaleY\<close> as 100 divided by the maximum of the
  corners' first components and \<^verbatim>\<open>crsScaleX\<close> likewise from the second components; no
  sequence of operations on the map changes the origin, the scale factors or the
  configured corners.
\<close>

theorem C9_crs_parameters:
  "crsScaleY (DataMap cfg st u) = js_div (Num 100) (Num (max (fst (fst (crs cfg))) (fst (snd (crs cfg))))) \<and>
   crsScaleX (DataMap cfg st u) = js_div (Num 100) (Num (max (snd (fst (crs cfg))) (snd (snd (crs cfg))))) \<and>
   crsOrigin (run (DataMap cfg st u) ops) = crsOrigin (DataMap cfg st u) \<and>
   crsScaleY (run (DataMap cfg st u) ops) = crsScaleY (DataMap cfg st u) \<and>
   crsScaleX (run (DataMap cfg st u) ops) = crsScaleX (DataMap cfg st u) \<and>
   crs (config (run (DataMap cfg st u) ops)) = crs cfg"
  using run_preserves [of "DataMap cfg st u" ops] by (simp add: DataMap_def)


section \<open>Claims about marker ingestion and the deep link\<close>

text \<open>
  Claim C5, as the code has it. A failed request (a rejected promise, or a response
  with an \<^verbatim>\<open>error\<close> field) calls the error callback and creates no marker. While the
  Leaflet map does not exist, a payload waits and the polling timer leaves it
  waiting; once the map exists the payload is ingested, at once or by the polling timer
  when it has waited. Ingestion looks each marker type's group up in
  \<^verbatim>\<open>config.groups\<close>. When every marker type with a placement finds a member there (a
  configured group, or a member inherited from \<^verbatim>\<open>Object.prototype\<close>), all markers of
  the payload are registered and the success callback is called. When one finds
  \<^verbatim>\<open>undefined\<close>, \<^verbatim>\<open>instantiateMarkers\<close> throws at its first placement, the markers placed
  before it stay registered, and neither callback is called.
\<close>

theorem C5_ingestion:
  "streamMarkersIn m Rejected = Ok (m\<lparr>callbackLog := callbackLog m @ [ErrorCallback]\<rparr>) \<and>
   streamMarkersIn m ApiError = Ok (m\<lparr>callbackLog := callbackLog m @ [ErrorCallback]\<rparr>) \<and>
   (leaflet m = None \<longrightarrow>
      streamMarkersIn m (Markers data) = Ok (m\<lparr>waiting := waiting m @ [data]\<rparr>) \<and>
      onPollTimer m = Ok m) \<and>
   (leaflet m \<noteq> None \<longrightarrow>
      streamMarkersIn m (Markers data) = ingest m data \<and>
      (waiting m = data # rest \<longrightarrow> onPollTimer m = ingest (m\<lparr>waiting := rest\<rparr>) data)) \<and>
   (if list_all (knownGroup m) data
    then \<exists>m'. ingest m data = Ok m' \<and>
           lm_members (layerManager m') =
             lm_members (layerManager m) @ concat (map (placedMarkers m) data) \<and>
           callbackLog m' = callbackLog m @ [SuccessCallback]
    else \<exists>m'. ingest m data = Throw TypeError m' \<and>
           lm_members (layerManager m') =
             lm_members (layerManager m) @
               concat (map (placedMarkers m) (takeWhile (knownGroup m) data)) \<and>
           callbackLog m' = callbackLog m)"
proof -
  obtain lm where lm: "lm_members lm = lm_members (layerManager m)" and
    eq: "ingest m data =
       (if list_all (knownGroup m) data
        then Ok (addPlaced (m\<lparr>layerManager := lm, callbackLog := callbackLog m @ [SuccessCallback]\<rparr>)
                   (concat (map (placedMarkers m) data)) (concat (map (autoOpened m) data)))
        else Throw TypeError
               (addPlaced (m\<lparr>layerManager := lm\<rparr>)
                  (concat (map (placedMarkers m) (takeWhile (knownGroup m) data)))
                  (concat (map (autoOpened m) (takeWhile (knownGroup m) data)))))"
    using ingest_eq by blast
  have a: "streamMarkersIn m Rejected = Ok (m\<lparr>callbackLog := callbackLog m @ [ErrorCallback]\<rparr>)"
    "streamMarkersIn m ApiError = Ok (m\<lparr>callbackLog := callbackLog m @ [ErrorCallback]\<rparr>)"
    by (simp_all add: streamMarkersIn_def)
  have b: "streamMarkersIn m (Markers data) = Ok (m\<lparr>waiting := waiting m @ [data]\<rparr>)"
    "onPollTimer m = Ok m" if "leaflet m = None"
    using that by (simp_all add: streamMarkersIn_def waitForLeaflet_def onPollTimer_def split: list.split)
  have c: "streamMarkersIn m (Markers data) = ingest m data" if "leaflet m \<noteq> None"
    using that by (cases "leaflet m") (simp_all add: streamMarkersIn_def waitForLeaflet_def)
  have d: "onPollTimer m = ingest (m\<lparr>waiting := rest\<rparr>) data"
    if "leaflet m \<noteq> None" "waiting m = data # rest"
    using that by (cases "leaflet m") (simp_all add: onPollTimer_def)
  have e: "if list_all (knownGroup m) data
    then \<exists>m'. ingest m data = Ok m' \<and>
           lm_members (layerManager m') =
             lm_members (layerManager m) @ concat (map (placedMarkers m) data) \<and>
           callbackLog m' = callbackLog m @ [SuccessCallback]
    else \<exists>m'. ingest m data = Throw TypeError m' \<and>
           lm_members (layerManager m') =
             lm_members (layerManager m) @
               concat (map (placedMarkers m) (takeWhile (knownGroup m) data)) \<and>
           callbackLog m' = callbackLog m"
    by (simp add: eq lm addPlaced_def)
  show ?thesis
    using a b c d e by blast
qed

text \<open>
  C5 on a complete payload, on one whose second marker type is unknown, on one whose
  marker type is \<^verbatim>\<open>constructor\<close>, and on a payload that arrives before the Leaflet map
  exists and is ingested by the polling timer afterwards.
\<close>

theorem C5_ingestion_witness:
  "(\<exists>m'. streamMarkersIn (exampleMap ((100, 100), (0, 0)) None) (Markers examplePayload) = Ok m' \<and>
      lm_members (layerManager m') =
        [(''chest'', CircleMarker (Num 10, Num 20) (Num 2) None (Some ''red'') (Some ''red'') 1),
         (''chest cave'', CircleMarker (Num 30, Num 40) (Num 2) None (Some ''red'') (Some ''red'') 1)] \<and>
      callbackLog m' = [SuccessCallback]) \<and>
   (\<exists>m'. streamMarkersIn (exampleMap ((100, 100), (0, 0)) None) (Markers brokenPayload) = Throw TypeError m' \<and>
      lm_members (layerManager m') =
        [(''chest'', CircleMarker (Num 10, Num 20) (Num 2) None (Some ''red'') (Some ''red'') 1)] \<and>
      callbackLog m' = []) \<and>
   (\<exists>m'. streamMarkersIn (exampleMap ((100, 100), (0, 0)) None) (Markers inheritedPayload) = Ok m' \<and>
      lm_members (layerManager m') =
        [(''constructor'', CircleMarker (Num 10, Num 20) NaN None None None 1)] \<and>
      callbackLog m' = [SuccessCallback]) \<and>
   streamMarkersIn (DataMap (exampleConfig ((100, 100), (0, 0))) exampleStorage None) (Markers examplePayload)
     = Ok ((DataMap (exampleConfig ((100, 100), (0, 0))) exampleStorage None)\<lparr>waiting := [examplePayload]\<rparr>) \<and>
   (\<exists>m'. onPollTimer ((exampleMap ((100, 100), (0, 0)) None)\<lparr>waiting := [examplePayload]\<rparr>) = Ok m' \<and>
      lm_members (layerManager m') =
        [(''chest'', CircleMarker (Num 10, Num 20) (Num 2) None (Some ''red'') (Some ''red'') 1),
         (''chest cave'', CircleMarker (Num 30, Num 40) (Num 2) None (Some ''red'') (Some ''red'') 1)] \<and>
      callbackLog m' = [SuccessCallback])"
proof -
  let ?m = "exampleMap ((100, 100), (0, 0)) None"
  let ?d = "DataMap (exampleConfig ((100, 100), (0, 0))) exampleStorage None"
  let ?w = "?m\<lparr>waiting := [examplePayload]\<rparr>"
  have a: "leaflet ?m \<noteq> None" "lm_members (layerManager ?m) = []" "callbackLog ?m = []"
    "leaflet ?w \<noteq> None" "waiting ?w = examplePayload # []" "?w\<lparr>waiting := []\<rparr> = ?m"
    "leaflet ?d = None" "waiting ?d = []"
    by (simp_all add: exampleMap_def DataMap_def)
  note p = placedMarkers_examples [of None]
  note k = knownGroup_examples [of "((100, 100), (0, 0))" None]
  have 1: "\<exists>m'. streamMarkersIn ?m (Markers examplePayload) = Ok m' \<and>
      lm_members (layerManager m') =
        [(''chest'', CircleMarker (Num 10, Num 20) (Num 2) None (Some ''red'') (Some ''red'') 1),
         (''chest cave'', CircleMarker (Num 30, Num 40) (Num 2) None (Some ''red'') (Some ''red'') 1)] \<and>
      callbackLog m' = [SuccessCallback]"
    using C5_ingestion [of ?m examplePayload]
    by (simp only: a p k if_True append_Nil not_False_eq_True simp_thms)
  have 2: "\<exists>m'. streamMarkersIn ?m (Markers brokenPayload) = Throw TypeError m' \<and>
      lm_members (layerManager m') =
        [(''chest'', CircleMarker (Num 10, Num 20) (Num 2) None (Some ''red'') (Some ''red'') 1)] \<and>
      callbackLog m' = []"
    using C5_ingestion [of ?m brokenPayload]
    by (simp only: a p k if_True if_False append_Nil not_False_eq_True simp_thms)
  have 3: "\<exists>m'. streamMarkersIn ?m (Markers inheritedPayload) = Ok m' \<and>
      lm_members (layerManager m') =
        [(''constructor'', CircleMarker (Num 10, Num 20) NaN None None None 1)] \<and>
      callbackLog m' = [SuccessCallback]"
    using C5_ingestion [of ?m inheritedPayload]
    by (simp only: a p k if_True append_Nil not_False_eq_True simp_thms)
  have 4: "streamMarkersIn ?d (Markers examplePayload) = Ok (?d\<lparr>waiting := [examplePayload]\<rparr>)"
    using C5_ingestion [of ?d examplePayload]
    by (simp only: a append_Nil simp_thms)
  have 5: "\<exists>m'. onPollTimer ?w = Ok m' \<and>
      lm_members (layerManager m') =
        [(''chest'', CircleMarker (Num 10, Num 20) (Num 2) None (Some ''red'') (Some ''red'') 1),
         (''chest cave'', CircleMarker (Num 30, Num 40) (Num 2) None (Some ''red'') (Some ''red'') 1)] \<and>
      callbackLog m' = [SuccessCallback]"
    using C5_ingestion [of ?w examplePayload "[]"] C5_ingestion [of ?m examplePayload]
    by (simp only: a p k if_True append_Nil not_False_eq_True simp_thms)
  from 1 2 3 4 5 show ?thesis by (intro conjI)
qed

text \<open>
  The payload \<^verbatim>\<open>{ "chest": [a], "ghost": [b] }\<close> on a map that only configures
  \<^verbatim>\<open>chest\<close>: ingestion throws, and the marker of \<^verbatim>\<open>a\<close> is registered all the same, one
  marker of two.
\<close>

theorem C5_partial_ingestion_counterexample:
  "\<not> isOk (streamMarkersIn (exampleMap ((100, 100), (0, 0)) None) (Markers brokenPayload)) \<and>
   lm_members (layerManager (state_of
       (streamMarkersIn (exampleMap ((100, 100), (0, 0)) None) (Markers brokenPayload))))
     = [(''chest'', CircleMarker (Num 10, Num 20) (Num 2) None (Some ''red'') (Some ''red'') 1)] \<and>
   callbackLog (state_of
       (streamMarkersIn (exampleMap ((100, 100), (0, 0)) None) (Markers brokenPayload))) = []"
  by (simp add: streamMarkersIn_def waitForLeaflet_def ingest_def instantiateMarkers_def
        unpackMarkers_def placeInstance_def onMarkerReady_def constructMarker_def
        translatePoint_def registerLayers_def lm_register_def lm_addMember_def
        exampleMap_def DataMap_def exampleConfig_def exampleGroup_def exampleLeaflet_def
        lookupGroup_def objectPrototypeMembers_def
        brokenPayload_def chestA_def chestB_def Let_def)

text \<open>
  Claim C8. \<^verbatim>\<open>onMarkerReady\<close> opens the popup of a marker exactly when a \<^verbatim>\<open>marker\<close>
  parameter is present and equals the marker's key, which is the \<^verbatim>\<open>uid\<close> slot when
  there is one and the key of the storage driver otherwise. An ingestion that completes
  has opened the popups of exactly the matching markers, in payload order, and none
  without a parameter.
\<close>

theorem C8_deep_link:
  "onMarkerReady m t grp inst marker =
     (if \<exists>wanted. markerIdToAutoOpen m = Some wanted \<and> markerKey m t inst = KStr wanted
      then m\<lparr>openedPopups := openedPopups m @ [marker]\<rparr> else m) \<and>
   markerKey m t inst =
     (case Option.bind (inst_slots inst) uid of
        Some u \<Rightarrow> u
      | None \<Rightarrow> getMarkerKey (storage m) t inst) \<and>
   (instantiateMarkers m data = Ok m' \<longrightarrow>
      openedPopups m' = openedPopups m @ concat (map (autoOpened m) data)) \<and>
   (markerIdToAutoOpen m = None \<longrightarrow> concat (map (autoOpened m) data) = [])"
proof -
  have a: "onMarkerReady m t grp inst marker =
     (if \<exists>wanted. markerIdToAutoOpen m = Some wanted \<and> markerKey m t inst = KStr wanted
      then m\<lparr>openedPopups := openedPopups m @ [marker]\<rparr> else m)"
    by (cases "markerIdToAutoOpen m") (simp_all add: onMarkerReady_def)
  have b: "markerKey m t inst =
     (case Option.bind (inst_slots inst) uid of
        Some u \<Rightarrow> u
      | None \<Rightarrow> getMarkerKey (storage m) t inst)"
    by (simp add: markerKey_def split: option.splits)
  have c: "openedPopups m' = openedPopups m @ concat (map (autoOpened m) data)"
    if "instantiateMarkers m data = Ok m'"
  proof -
    obtain lm where
      "instantiateMarkers m data =
         (if list_all (knownGroup m) data
          then Ok (addPlaced (m\<lparr>layerManager := lm\<rparr>)
                     (concat (map (placedMarkers m) data)) (concat (map (autoOpened m) data)))
          else Throw TypeError
                 (addPlaced (m\<lparr>layerManager := lm\<rparr>)
                    (concat (map (placedMarkers m) (takeWhile (knownGroup m) data)))
                    (concat (map (autoOpened m) (takeWhile (knownGroup m) data)))))"
      using instantiateMarkers_eq by blast
    with that show ?thesis
      by (cases "list_all (knownGroup m) data") (auto simp: addPlaced_def)
  qed
  show ?thesis
    using a b c autoOpened_no_parameter by blast
qed

text \<open>
  C8 with the parameter \<^verbatim>\<open>b7\<close>, the \<^verbatim>\<open>uid\<close> of the second placement, and without a
  parameter.
\<close>

theorem C8_deep_link_witness:
  "isOk (instantiateMarkers (exampleMap ((100, 100), (0, 0)) (Some ''b7'')) examplePayload) \<and>
   openedPopups (state_of (instantiateMarkers (exampleMap ((100, 100), (0, 0)) (Some ''b7'')) examplePayload))
     = [CircleMarker (Num 30, Num 40) (Num 2) None (Some ''red'') (Some ''red'') 1] \<and>
   isOk (instantiateMarkers (exampleMap ((100, 100), (0, 0)) None) examplePayload) \<and>
   openedPopups (state_of (instantiateMarkers (exampleMap ((100, 100), (0, 0)) None) examplePayload)) = []"
proof -
  let ?m = "exampleMap ((100, 100), (0, 0)) (Some ''b7'')"
  let ?n = "exampleMap ((100, 100), (0, 0)) None"
  have ok: "isOk (instantiateMarkers ?m examplePayload)" "isOk (instantiateMarkers ?n examplePayload)"
    using instantiateMarkers_eq [of ?m examplePayload] instantiateMarkers_eq [of ?n examplePayload]
    by (auto simp: knownGroup_examples)
  then obtain m' n' where r: "instantiateMarkers ?m examplePayload = Ok m'"
    "instantiateMarkers ?n examplePayload = Ok n'"
    by (cases "instantiateMarkers ?m examplePayload"; cases "instantiateMarkers ?n examplePayload") auto
  have o: "openedPopups ?m = []" "openedPopups ?n = []" "markerIdToAutoOpen ?n = None"
    by (simp_all add: exampleMap_def DataMap_def)
  have p: "concat (map (autoOpened ?m) examplePayload) = [CircleMarker (Num 30, Num 40) (Num 2) None (Some ''red'') (Some ''red'') 1]"
    by (simp add: autoOpened_def deepLinked_def markerKey_def constructMarker_def translatePoint_def
          exampleMap_def DataMap_def exampleConfig_def exampleGroup_def exampleStorage_def
          lookupGroup_def objectPrototypeMembers_def examplePayload_def chestA_def chestB_def)
  from C8_deep_link [of ?m _ _ _ _ examplePayload m'] r(1)
  have "openedPopups m' = [CircleMarker (Num 30, Num 40) (Num 2) None (Some ''red'') (Some ''red'') 1]"
    by (simp add: o p)
  moreover from C8_deep_link [of ?n _ _ _ _ examplePayload n'] r(2)
  have "openedPopups n' = []"
    by (simp add: o)
  ultimately show ?thesis using ok r by simp
qed


section \<open>Claims about background selection\<close>

text \<open>
  Claim C6. For every integer index, \<^verbatim>\<open>setCurrentBackground\<close> stores and selects index 0
  when the index is negative or not less than the number of backgrounds, and the index
  itself otherwise.
\<close>

theorem C6_index_fallback:
  "backgroundIndex (state_of (setCurrentBackground m (Index i))) =
     Index (if i < 0 \<or> int (length (backgrounds (config m))) \<le> i then 0 else i) \<and>
   background (state_of (setCurrentBackground m (Index i))) =
     (if backgrounds (config m) = [] then None
      else Some (backgrounds (config m) !
                   nat (if i < 0 \<or> int (length (backgrounds (config m))) \<le> i then 0 else i)))"
  using setCurrentBackground_frame [of m "Index i"]
  by (auto simp: clamped_index backgroundAt_clamped simp del: if_split split: if_splits)

text \<open>C6 for index 7 with two backgrounds: the first background is selected.\<close>

theorem C6_index_fallback_witness:
  "backgroundIndex (state_of (setCurrentBackground (exampleMap ((100, 100), (0, 0)) None) (Index 7)))
     = Index 0 \<and>
   background (state_of (setCurrentBackground (exampleMap ((100, 100), (0, 0)) None) (Index 7))) =
     Some \<lparr> bg_name = ''surface'', bg_at = ((100, 100), (0, 0)), bg_layers = [0] \<rparr>"
  using C6_index_fallback [of "exampleMap ((100, 100), (0, 0)) None" 7]
  by (simp add: exampleMap_def DataMap_def exampleConfig_def)

text \<open>
  Claim C7, as the code has it. \<^verbatim>\<open>setCurrentBackground\<close> leaves the storage as it is,
  also when \<^verbatim>\<open>buildLeafletMap\<close> calls it with the stored index. The \<^verbatim>\<open>change\<close> handler
  of the background switch stores the selected value under \<^verbatim>\<open>background\<close> after the call
  has returned. On a map with a Leaflet map and a background, the call removes the
  layers of the previous background and shows those of the new one.
\<close>

theorem C7_persistence:
  "storage (state_of (setCurrentBackground m a)) = storage m \<and>
   storage (state_of (restoreLastBackground m)) = storage m \<and>
   (setCurrentBackground m v = Ok m1 \<longrightarrow>
      onBackgroundSwitchChange m v = Ok (m1\<lparr>storage := storage_set (storage m) ''background'' v\<rparr>) \<and>
      storage_get (storage_set (storage m) ''background'' v) ''background'' = Some v) \<and>
   (leaflet m = Some lf \<and> backgrounds (config m) \<noteq> [] \<longrightarrow>
      (\<exists>lf'. setCurrentBackground m (Index i) =
           Ok (m\<lparr>leaflet := Some lf',
                 background := Some (backgrounds (config m) ! nat (clampIndex m i)),
                 backgroundIndex := Index (clampIndex m i)\<rparr>) \<and>
         set (lf_layers lf') =
           (set (lf_layers lf) - (case background m of None \<Rightarrow> {} | Some bg \<Rightarrow> set (bg_layers bg)))
             \<union> set (bg_layers (backgrounds (config m) ! nat (clampIndex m i)))))"
proof -
  have a: "storage (state_of (setCurrentBackground m a)) = storage m"
    by simp
  have b: "storage (state_of (restoreLastBackground m)) = storage m"
    by (simp add: restoreLastBackground_def)
  have c: "onBackgroundSwitchChange m v = Ok (m1\<lparr>storage := storage_set (storage m) ''background'' v\<rparr>)"
    if "setCurrentBackground m v = Ok m1"
  proof -
    have "storage m1 = storage m"
      using setCurrentBackground_preserves(5) [of m v] that by simp
    then show ?thesis using that by (simp add: onBackgroundSwitchChange_def)
  qed
  have d: "storage_get (storage_set (storage m) ''background'' v) ''background'' = Some v"
    by (simp add: storage_get_def storage_set_def)
  show ?thesis
    using a b c d setCurrentBackground_Ok [of m lf i] by blast
qed

text \<open>C7 for the second background of the example map, selected through the switch.\<close>

theorem C7_persistence_witness:
  "(\<exists>m1. setCurrentBackground (exampleMap ((100, 100), (0, 0)) None) (Index 1) = Ok m1 \<and>
      onBackgroundSwitchChange (exampleMap ((100, 100), (0, 0)) None) (Index 1) =
        Ok (m1\<lparr>storage := storage_set exampleStorage ''background'' (Index 1)\<rparr>)) \<and>
   (\<exists>lf'. setCurrentBackground (exampleMap ((100, 100), (0, 0)) None) (Index 1) =
        Ok ((exampleMap ((100, 100), (0, 0)) None)
             \<lparr>leaflet := Some lf',
               background := Some \<lparr> bg_name = ''caves'', bg_at = ((100, 100), (0, 0)), bg_layers = [1, 2] \<rparr>,
               backgroundIndex := Index 1\<rparr>) \<and>
      set (lf_layers lf') = {1, 2})"
proof -
  let ?m = "exampleMap ((100, 100), (0, 0)) None"
  have h: "leaflet ?m = Some exampleLeaflet \<and> backgrounds (config ?m) \<noteq> []"
    by (simp add: exampleMap_def DataMap_def exampleConfig_def)
  have e: "clampIndex ?m 1 = 1" "storage ?m = exampleStorage" "background ?m = None"
    "backgrounds (config ?m) ! Suc 0 = \<lparr> bg_name = ''caves'', bg_at = ((100, 100), (0, 0)), bg_layers = [1, 2] \<rparr>"
    "lf_layers exampleLeaflet = []"
    by (simp_all add: clampIndex_def exampleMap_def DataMap_def exampleConfig_def exampleLeaflet_def)
  from C7_persistence [of ?m _ _ _ exampleLeaflet 1] h
  have k: "\<exists>lf'. setCurrentBackground ?m (Index 1) =
           Ok (?m\<lparr>leaflet := Some lf',
                 background := Some (backgrounds (config ?m) ! nat (clampIndex ?m 1)),
                 backgroundIndex := Index (clampIndex ?m 1)\<rparr>) \<and>
         set (lf_layers lf') =
           (set (lf_layers exampleLeaflet) - (case background ?m of None \<Rightarrow> {} | Some bg \<Rightarrow> set (bg_layers bg)))
             \<union> set (bg_layers (backgrounds (config ?m) ! nat (clampIndex ?m 1)))"
    by blast
  then obtain lf' where l: "setCurrentBackground ?m (Index 1) =
           Ok (?m\<lparr>leaflet := Some lf',
                 background := Some \<lparr> bg_name = ''caves'', bg_at = ((100, 100), (0, 0)), bg_layers = [1, 2] \<rparr>,
                 backgroundIndex := Index 1\<rparr>)" "set (lf_layers lf') = {1, 2}"
    by (auto simp: e)
  from C7_persistence [of ?m _ "Index 1" _ exampleLeaflet 1] l(1)
  have "onBackgroundSwitchChange ?m (Index 1) =
      Ok (?m\<lparr>leaflet := Some lf',
                 background := Some \<lparr> bg_name = ''caves'', bg_at = ((100, 100), (0, 0)), bg_layers = [1, 2] \<rparr>,
                 backgroundIndex := Index 1, storage := storage_set exampleStorage ''background'' (Index 1)\<rparr>)"
    by (simp add: e)
  with l show ?thesis by auto
qed

text \<open>
  Selecting background 1 by \<^verbatim>\<open>setCurrentBackground\<close>, or restoring the last background
  at start-up, succeeds and leaves the \<^verbatim>\<open>background\<close> key of the storage unset.
\<close>

theorem C7_no_persistence_counterexample:
  "isOk (setCurrentBackground (exampleMap ((100, 100), (0, 0)) None) (Index 1)) \<and>
   backgroundIndex (state_of (setCurrentBackground (exampleMap ((100, 100), (0, 0)) None) (Index 1)))
     = Index 1 \<and>
   storage_get (storage (state_of (setCurrentBackground (exampleMap ((100, 100), (0, 0)) None) (Index 1))))
     ''background'' = None \<and>
   isOk (restoreLastBackground (exampleMap ((100, 100), (0, 0)) None)) \<and>
   storage_get (storage (state_of (restoreLastBackground (exampleMap ((100, 100), (0, 0)) None))))
     ''background'' = None"
  by (simp add: setCurrentBackground_def restoreLastBackground_def pushLayer_def lf_addTo_def
        lf_bringToBack_def storage_get_def exampleMap_def DataMap_def exampleConfig_def
        exampleStorage_def exampleLeaflet_def outOfRange_def backgroundAt_def Let_def)

text \<open>
  Claim C10 says that after every call of \<^verbatim>\<open>setCurrentBackground\<close>, whatever the
  argument, the selected background is the configured one at the stored index and the
  index is in range. For an integer argument it is so (lemma
  \<open>setCurrentBackground_bgConsistent\<close>). An argument whose numeric value is NaN passes
  the check that the comment of the code calls ``Check if index is valid, and fall back
  to first otherwise'': on the example map, after background 1 has been selected, such
  a call throws and leaves no background selected and the argument as the stored
  index; so does the start-up call when the stored choice is not a number.
\<close>

theorem C10_non_numeric_argument:
  "bgConsistent (state_of (setCurrentBackground (exampleMap ((100, 100), (0, 0)) None) (Index 1))) \<and>
   \<not> isOk (setCurrentBackground
       (state_of (setCurrentBackground (exampleMap ((100, 100), (0, 0)) None) (Index 1))) NonNumeric) \<and>
   background (state_of (setCurrentBackground
       (state_of (setCurrentBackground (exampleMap ((100, 100), (0, 0)) None) (Index 1))) NonNumeric))
     = None \<and>
   backgroundIndex (state_of (setCurrentBackground
       (state_of (setCurrentBackground (exampleMap ((100, 100), (0, 0)) None) (Index 1))) NonNumeric))
     = NonNumeric \<and>
   \<not> bgConsistent (state_of (setCurrentBackground
       (state_of (setCurrentBackground (exampleMap ((100, 100), (0, 0)) None) (Index 1))) NonNumeric)) \<and>
   \<not> isOk (restoreLastBackground
       ((exampleMap ((100, 100), (0, 0)) None)
          \<lparr>storage := storage_set exampleStorage ''background'' NonNumeric\<rparr>)) \<and>
   \<not> bgConsistent (state_of (restoreLastBackground
       ((exampleMap ((100, 100), (0, 0)) None)
          \<lparr>storage := storage_set exampleStorage ''background'' NonNumeric\<rparr>)))"
proof -
  let ?m = "exampleMap ((100, 100), (0, 0)) None"
  let ?m1 = "state_of (setCurrentBackground ?m (Index 1))"
  let ?s = "?m\<lparr>storage := storage_set exampleStorage ''background'' NonNumeric\<rparr>"
  have ne: "backgrounds (config ?m) \<noteq> []"
    by (simp add: exampleMap_def DataMap_def exampleConfig_def)
  have a: "bgConsistent ?m1"
    using ne by (rule setCurrentBackground_bgConsistent)
  obtain lf where b: "setCurrentBackground ?m1 NonNumeric =
      Throw TypeError (?m1\<lparr>leaflet := lf, background := None, backgroundIndex := NonNumeric\<rparr>)"
    using setCurrentBackground_NonNumeric by blast
  have r: "restoreLastBackground ?s = setCurrentBackground ?s NonNumeric"
    by (simp add: restoreLastBackground_def storage_get_def storage_set_def)
  obtain lf' where c: "setCurrentBackground ?s NonNumeric =
      Throw TypeError (?s\<lparr>leaflet := lf', background := None, backgroundIndex := NonNumeric\<rparr>)"
    using setCurrentBackground_NonNumeric by blast
  show ?thesis
    using a by (simp add: b r c bgConsistent_def)
qed

end
